theory Spec2Isabelle
  imports Complex_Main "HOL-Library.Sublist"
begin

section \<open>JavaScript strings and arrays\<close>

text \<open>
  A JavaScript string is a sequence of UTF-16 code units; \<open>length\<close>, \<open>includes\<close> and the
  regular expressions of the source work on code units. The Turkish keywords of the prompt
  parser contain letters beyond Latin-1 (U+0131, U+011F, U+015F), so a string is modelled as
  a list of code units, and the ASCII literals of the source are written through \<open>ascii\<close>.
\<close>

type_synonym ustring = "nat list"

definition ascii :: "string \<Rightarrow> ustring" where
  "ascii s = map of_char s"

text \<open>
  \<open>String.prototype.toLowerCase\<close>. On a string of Basic Latin and Latin-1 Supplement code
  units the lower case is given unit by unit: the capital letters \<open>A\<close> to \<open>Z\<close> and U+00C0 to
  U+00DE (without the multiplication sign U+00D7) move up by 32, every other unit of that
  range is its own lower case. On any other string (letters of other scripts, surrogate
  pairs, the context rule for the Greek sigma) the result is what the Unicode tables of the
  engine give: it is the parameter \<open>lower\<close> of the model.
\<close>

definition lowerUnit :: "nat \<Rightarrow> nat" where
  "lowerUnit c =
     (if 65 \<le> c \<and> c \<le> 90 then c + 32
      else if 192 \<le> c \<and> c \<le> 222 \<and> c \<noteq> 215 then c + 32
      else c)"

definition toLowerCase :: "(ustring \<Rightarrow> ustring) \<Rightarrow> ustring \<Rightarrow> ustring" where
  "toLowerCase lower s = (if list_all (\<lambda>c. c < 256) s then map lowerUnit s else lower s)"

text \<open>The character class \<open>\s\<close> of a JavaScript regular expression, also what \<open>trim\<close> strips.\<close>

definition isWhiteSpace :: "nat \<Rightarrow> bool" where
  "isWhiteSpace c \<longleftrightarrow>
     (9 \<le> c \<and> c \<le> 13) \<or> c = 32 \<or> c = 160 \<or> c = 5760
     \<or> (8192 \<le> c \<and> c \<le> 8202) \<or> c = 8232 \<or> c = 8233 \<or> c = 8239
     \<or> c = 8287 \<or> c = 12288 \<or> c = 65279"

definition trim :: "ustring \<Rightarrow> ustring" where
  "trim s = rev (dropWhile isWhiteSpace (rev (dropWhile isWhiteSpace s)))"

text \<open>\<open>s.includes(k)\<close>: \<open>k\<close> occurs in \<open>s\<close> as a contiguous run of code units.\<close>

fun str_includes :: "ustring \<Rightarrow> ustring \<Rightarrow> bool" where
  "str_includes [] k = (k = [])"
| "str_includes (c # cs) k = (prefix k (c # cs) \<or> str_includes cs k)"

text \<open>
  \<open>Array.prototype.sort\<close> with a comparator is a stable sort. \<open>after a b\<close> stands for
  "the comparator's result on \<open>(a, b)\<close> is positive", that is, \<open>a\<close> has to come after \<open>b\<close>.
  For a consistent comparator the stable sorted arrangement is unique; it is computed here
  by insertion from the right.
\<close>

fun insert_sorted :: "('a \<Rightarrow> 'a \<Rightarrow> bool) \<Rightarrow> 'a \<Rightarrow> 'a list \<Rightarrow> 'a list" where
  "insert_sorted after x [] = [x]"
| "insert_sorted after x (y # ys) =
     (if after x y then y # insert_sorted after x ys else x # y # ys)"

definition Array_sort :: "('a \<Rightarrow> 'a \<Rightarrow> bool) \<Rightarrow> 'a list \<Rightarrow> 'a list" where
  "Array_sort after xs = foldr (insert_sorted after) xs []"

text \<open>JavaScript truthiness of an optional string: \<open>undefined\<close> and \<open>''\<close> are falsy.\<close>

fun truthy :: "ustring option \<Rightarrow> bool" where
  "truthy None = False"
| "truthy (Some s) = (s \<noteq> [])"

text \<open>\<open>a || b\<close> where \<open>a\<close> is an optional string: with an optional and with a plain string \<open>b\<close>.\<close>

definition or_else :: "ustring option \<Rightarrow> ustring option \<Rightarrow> ustring option" where
  "or_else a b = (if truthy a then a else b)"

fun or_string :: "ustring option \<Rightarrow> ustring \<Rightarrow> ustring" where
  "or_string None b = b"
| "or_string (Some a) b = (if a \<noteq> [] then a else b)"

section \<open>Types (\<open>@/types\<close>)\<close>

datatype ColumnType = TNumber | TString | TDatetime | TBoolean | TUnknown

text \<open>
  A number of the source is an IEEE double. The model keeps \<open>NaN\<close> and the two infinities
  apart from the finite values, which are exact reals: rounding, overflow and the sign of
  zero are not represented.
\<close>

datatype number = NaN | Infinity | NegInfinity | Finite real

text \<open>
  A plain object inherits the members of \<open>Object.prototype\<close>: eleven functions and the
  accessor \<open>__proto__\<close>. Reading a key that the object does not have itself gives the member
  of that name, if there is one, and \<open>undefined\<close> otherwise.
\<close>

definition functionMembers :: "ustring list" where
  "functionMembers =
    [ascii ''constructor'', ascii ''__defineGetter__'', ascii ''__defineSetter__'',
     ascii ''hasOwnProperty'', ascii ''__lookupGetter__'', ascii ''__lookupSetter__'',
     ascii ''isPrototypeOf'', ascii ''propertyIsEnumerable'', ascii ''toString'',
     ascii ''valueOf'', ascii ''toLocaleString'']"

definition protoKey :: ustring where
  "protoKey = ascii ''__proto__''"

text \<open>A cell of a row: the scalars that the file decoders deliver, or, for a key that the
  row lacks, the inherited member \<open>Inherited k\<close> of the name \<open>k\<close>.\<close>

datatype cell =
  Undefined | Null | Boolean bool | Number number | String ustring | Inherited ustring

text \<open>\<open>Record<string, unknown>\<close>: the own keys in insertion order; \<open>get r k\<close> is \<open>r[k]\<close>.\<close>

type_synonym row = "(ustring \<times> cell) list"

definition get :: "row \<Rightarrow> ustring \<Rightarrow> cell" where
  "get r k =
     (case map_of r k of
        Some v \<Rightarrow> v
      | None \<Rightarrow> if k = protoKey \<or> k \<in> set functionMembers then Inherited k else Undefined)"

datatype FileType = Csv | Json | Xlsx

record ColumnSchema =
  name :: ustring
  type :: ColumnType
  sampleValues :: "cell list"
  uniqueCount :: nat
  nullCount :: nat
  nullRatio :: real

record DatasetSchema =
  columns :: "ColumnSchema list"
  rowCount :: nat
  fileName :: ustring
  fileType :: FileType

datatype ChartType =
    Bar | BarHorizontal | BarGrouped | BarStacked | Line | Area | AreaStacked
  | Scatter | Bubble | Histogram | Boxplot | Heatmap | Pie | Donut | Radar
  | Timeline | Combo

datatype ChartCategory = Trend | Distribution | Relationship | Composition | Comparison

datatype Aggregation = AggSum | AggMean | AggCount | AggMin | AggMax

datatype SortOrder = Ascending | Descending

datatype TimeGranularity = Day | Week | Month | Year

record ChartIntent =
  chartType :: "ChartType option"
  xField :: "ustring option"
  yField :: "ustring option"
  colorField :: "ustring option"
  sizeField :: "ustring option"
  filterConditions :: "(ustring \<times> cell) list option"
  aggregation :: "Aggregation option"
  sortOrder :: "SortOrder option"
  timeGranularity :: "TimeGranularity option"

section \<open>The prompt parser (\<open>promptParser.ts\<close>)\<close>

text \<open>
  \<open>CHART_TYPE_KEYWORDS\<close>, in the order of the object literal, which is the order of
  \<open>Object.keys\<close> (no key is an array index). Letters outside ASCII are given by their code
  unit: 231 is c-cedilla, 252 u-diaeresis, 246 o-diaeresis, 305 dotless i, 287 g-breve,
  351 s-cedilla.
\<close>

definition CHART_TYPE_KEYWORDS :: "(ustring \<times> ChartType list) list" where
  "CHART_TYPE_KEYWORDS =
    [(ascii ''bar'', [Bar]),
     (ascii ''bar chart'', [Bar]),
     (231 # ascii ''ubuk'', [Bar]),
     (231 # ascii ''ubuk grafik'', [Bar]),
     (ascii ''s'' @ 252 # ascii ''tun'', [Bar]),
     (ascii ''s'' @ 252 # ascii ''tun grafik'', [Bar]),
     (ascii ''horizontal bar'', [BarHorizontal]),
     (ascii ''yatay '' @ 231 # ascii ''ubuk'', [BarHorizontal]),
     (ascii ''stacked bar'', [BarStacked]),
     (ascii ''y'' @ [305, 287, 305] @ ascii ''lm'' @ [305, 351] @ ascii '' '' @ 231 # ascii ''ubuk'',
        [BarStacked]),
     (ascii ''line'', [Line]),
     (ascii ''line chart'', [Line]),
     (231 # ascii ''izgi'', [Line]),
     (231 # ascii ''izgi grafik'', [Line]),
     (ascii ''trend'', [Line]),
     (ascii ''zaman serisi'', [Line]),
     (ascii ''time series'', [Line]),
     (ascii ''area'', [Area]),
     (ascii ''area chart'', [Area]),
     (ascii ''alan'', [Area]),
     (ascii ''alan grafik'', [Area]),
     (ascii ''stacked area'', [AreaStacked]),
     (ascii ''y'' @ [305, 287, 305] @ ascii ''lm'' @ [305, 351] @ ascii '' alan'', [AreaStacked]),
     (ascii ''scatter'', [Scatter]),
     (ascii ''scatter plot'', [Scatter]),
     (ascii ''sa'' @ [231, 305] @ ascii ''l'' @ 305 # ascii ''m'', [Scatter]),
     (ascii ''nokta'', [Scatter]),
     (ascii ''bubble'', [Bubble]),
     (ascii ''bubble chart'', [Bubble]),
     (ascii ''balon'', [Bubble]),
     (ascii ''histogram'', [Histogram]),
     (ascii ''histograms'', [Histogram]),
     (ascii ''da'' @ [287, 305] @ ascii ''l'' @ 305 # ascii ''m'', [Histogram, Boxplot]),
     (ascii ''distribution'', [Histogram, Boxplot]),
     (ascii ''boxplot'', [Boxplot]),
     (ascii ''box plot'', [Boxplot]),
     (ascii ''kutu'', [Boxplot]),
     (ascii ''heatmap'', [Heatmap]),
     (ascii ''heat map'', [Heatmap]),
     (305 # ascii ''s'' @ 305 # ascii '' haritas'' @ [305], [Heatmap]),
     (ascii ''pie'', [Pie]),
     (ascii ''pie chart'', [Pie]),
     (ascii ''pasta'', [Pie]),
     (ascii ''pasta grafik'', [Pie]),
     (ascii ''donut'', [Donut]),
     (ascii ''halka'', [Donut]),
     (ascii ''combo'', [Combo]),
     (ascii ''combined'', [Combo]),
     (ascii ''birle'' @ 351 # ascii ''ik'', [Combo])]"

definition TIME_KEYWORDS :: "ustring list" where
  "TIME_KEYWORDS =
    [ascii ''time'', ascii ''date'', ascii ''month'', ascii ''year'', ascii ''week'',
     ascii ''day'', ascii ''quarter'',
     ascii ''zaman'', ascii ''tarih'', ascii ''ay'', ascii ''y'' @ 305 # ascii ''l'',
     ascii ''hafta'', ascii ''g'' @ 252 # ascii ''n'', 231 # ascii ''eyrek'',
     ascii ''son'', ascii ''last'', ascii ''recent'', ascii ''son d'' @ 246 # ascii ''nem'',
     ascii ''trend'', ascii ''over time'']"

definition AGGREGATION_KEYWORDS :: "(ustring \<times> Aggregation) list" where
  "AGGREGATION_KEYWORDS =
    [(ascii ''total'', AggSum),
     (ascii ''toplam'', AggSum),
     (ascii ''sum'', AggSum),
     (ascii ''average'', AggMean),
     (ascii ''ortalama'', AggMean),
     (ascii ''mean'', AggMean),
     (ascii ''count'', AggCount),
     (ascii ''say'' @ [305], AggCount),
     (ascii ''adet'', AggCount),
     (ascii ''minimum'', AggMin),
     (ascii ''min'', AggMin),
     (ascii ''en d'' @ 252 # 351 # 252 # ascii ''k'', AggMin),
     (ascii ''maximum'', AggMax),
     (ascii ''max'', AggMax),
     (ascii ''en y'' @ 252 # ascii ''ksek'', AggMax)]"

text \<open>The punctuation that \<open>normalizeText\<close> replaces by a blank: \<open>.,!?;:'"()[]{}\<close>.\<close>

definition isPunctuation :: "nat \<Rightarrow> bool" where
  "isPunctuation c \<longleftrightarrow> c \<in> {46, 44, 33, 63, 59, 58, 39, 34, 40, 41, 91, 93, 123, 125}"

text \<open>\<open>replace(/\s+/g, ' ')\<close>; the flag says that the unit before was white space.\<close>

fun collapseSpaces :: "bool \<Rightarrow> ustring \<Rightarrow> ustring" where
  "collapseSpaces prev [] = []"
| "collapseSpaces prev (c # cs) =
     (if isWhiteSpace c then (if prev then collapseSpaces True cs else 32 # collapseSpaces True cs)
      else c # collapseSpaces False cs)"

definition normalizeText :: "(ustring \<Rightarrow> ustring) \<Rightarrow> ustring \<Rightarrow> ustring" where
  "normalizeText lower text =
     trim (collapseSpaces False
       (map (\<lambda>c. if isPunctuation c then 32 else c) (toLowerCase lower text)))"

text \<open>The keys sorted by \<open>(a, b) => b.length - a.length\<close>.\<close>

definition sortedKeywords :: "ustring list" where
  "sortedKeywords = Array_sort (\<lambda>a b. length a < length b) (map fst CHART_TYPE_KEYWORDS)"

text \<open>The two loops of \<open>findChartType\<close> over an already normalized text.\<close>

definition chartTypeOf :: "ustring \<Rightarrow> ChartType option" where
  "chartTypeOf normalized =
     (case find (str_includes normalized) sortedKeywords of
        Some keyword \<Rightarrow>
          (case map_of CHART_TYPE_KEYWORDS keyword of
             Some (t # _) \<Rightarrow> Some t
           | _ \<Rightarrow> None)
      | None \<Rightarrow>
          (if list_ex (str_includes normalized) TIME_KEYWORDS then Some Line else None))"

definition findChartType :: "(ustring \<Rightarrow> ustring) \<Rightarrow> ustring \<Rightarrow> ChartType option" where
  "findChartType lower text = chartTypeOf (normalizeText lower text)"

record FieldMatches =
  fm_xField :: "ustring option"
  fm_yField :: "ustring option"
  fm_colorField :: "ustring option"

text \<open>The body of the loop over \<open>schema.columns\<close> in \<open>findFieldMatches\<close>.\<close>

definition matchColumn :: "(ustring \<Rightarrow> ustring) \<Rightarrow> ustring \<Rightarrow> FieldMatches \<Rightarrow> ColumnSchema \<Rightarrow> FieldMatches" where
  "matchColumn lower normalized result col =
     (if str_includes normalized (toLowerCase lower (name col)) then
        (if type col = TDatetime then result\<lparr>fm_xField := Some (name col)\<rparr>
         else if type col = TNumber \<and> \<not> truthy (fm_yField result)
           then result\<lparr>fm_yField := Some (name col)\<rparr>
         else if type col = TString \<and> \<not> truthy (fm_colorField result)
           then result\<lparr>fm_colorField := Some (name col)\<rparr>
         else result)
      else result)"

definition findFieldMatches :: "(ustring \<Rightarrow> ustring) \<Rightarrow> ustring \<Rightarrow> DatasetSchema \<Rightarrow> FieldMatches" where
  "findFieldMatches lower text schema =
     (let normalized = normalizeText lower text;
          numericColumns = filter (\<lambda>c. type c = TNumber) (columns schema);
          categoricalColumns = filter (\<lambda>c. type c = TString) (columns schema);
          dateColumns = filter (\<lambda>c. type c = TDatetime) (columns schema);
          r0 = foldl (matchColumn lower normalized)
                 \<lparr>fm_xField = None, fm_yField = None, fm_colorField = None\<rparr> (columns schema);
          r1 = (if \<not> truthy (fm_xField r0) \<and> dateColumns \<noteq> []
                then r0\<lparr>fm_xField := Some (name (hd dateColumns))\<rparr>
                else if \<not> truthy (fm_xField r0) \<and> categoricalColumns \<noteq> []
                then r0\<lparr>fm_xField := Some (name (hd categoricalColumns))\<rparr>
                else r0);
          r2 = (if \<not> truthy (fm_yField r1) \<and> numericColumns \<noteq> []
                then r1\<lparr>fm_yField := Some (name (hd numericColumns))\<rparr>
                else r1);
          r3 = (if \<not> truthy (fm_colorField r2) \<and> length categoricalColumns > 1
                then r2\<lparr>fm_colorField :=
                       map_option name
                         (find (\<lambda>c. Some (name c) \<noteq> fm_xField r2) categoricalColumns)\<rparr>
                else r2)
      in r3)"

definition findAggregation :: "(ustring \<Rightarrow> ustring) \<Rightarrow> ustring \<Rightarrow> Aggregation option" where
  "findAggregation lower text =
     (let normalized = normalizeText lower text
      in case find (\<lambda>(keyword, agg). str_includes normalized keyword) AGGREGATION_KEYWORDS of
           Some (keyword, agg) \<Rightarrow> Some agg
         | None \<Rightarrow> Some AggSum)"

definition parsePrompt :: "(ustring \<Rightarrow> ustring) \<Rightarrow> ustring \<Rightarrow> DatasetSchema \<Rightarrow> ChartIntent" where
  "parsePrompt lower prompt schema =
     (let foundType = findChartType lower prompt;
          fieldMatches = findFieldMatches lower prompt schema;
          foundAggregation = findAggregation lower prompt
      in \<lparr>chartType = Some (case foundType of Some t \<Rightarrow> t | None \<Rightarrow> Bar),
          xField = fm_xField fieldMatches,
          yField = fm_yField fieldMatches,
          colorField = fm_colorField fieldMatches,
          sizeField = None,
          filterConditions = None,
          aggregation = foundAggregation,
          sortOrder = None,
          timeGranularity = None\<rparr>)"

section \<open>The spec builder (\<open>vegaSpecBuilder.ts\<close>)\<close>

text \<open>
  The values inside a Vega-Lite document. An object keeps its properties in insertion order;
  \<open>JUndefined\<close> is a property that is present with the value \<open>undefined\<close>.
\<close>

datatype json =
    JUndefined
  | JBool bool
  | JNum real
  | JStr ustring
  | JArr "json list"
  | JObj "(ustring \<times> json) list"

text \<open>\<open>obj[k] = v\<close> on the property list of an object.\<close>

fun obj_set :: "'k \<Rightarrow> 'v \<Rightarrow> ('k \<times> 'v) list \<Rightarrow> ('k \<times> 'v) list" where
  "obj_set k v [] = [(k, v)]"
| "obj_set k v ((k', v') # rest) =
     (if k = k' then (k, v) # rest else (k', v') # obj_set k v rest)"

text \<open>
  The interface \<open>VegaLiteSpec\<close>: \<open>schema\<close> is the property \<open>$schema\<close>, \<open>data\<close> the array
  under \<open>data.values\<close>, \<open>encoding\<close> the property list of the encoding object.
\<close>

record VegaLiteSpec =
  spec_schema :: ustring
  spec_data :: "row list"
  mark :: "json option"
  encoding :: "(ustring \<times> json) list option"
  config :: "json option"
  width :: "json option"
  height :: "json option"
  spec_title :: "ustring option"
  layer :: "json list option"

definition AURORA_COLORS :: "ustring list" where
  "AURORA_COLORS =
    [ascii ''#00ffff'', ascii ''#9966ff'', ascii ''#ff66b2'', ascii ''#00cc99'',
     ascii ''#3399ff'', ascii ''#ffcc00'', ascii ''#ff6666'', ascii ''#66ff99'']"

definition baseConfig :: json where
  "baseConfig = JObj
    [(ascii ''background'', JStr (ascii ''transparent'')),
     (ascii ''view'', JObj [(ascii ''stroke'', JStr (ascii ''transparent''))]),
     (ascii ''axis'', JObj
        [(ascii ''labelColor'', JStr (ascii ''#a0aec0'')),
         (ascii ''titleColor'', JStr (ascii ''#e2e8f0'')),
         (ascii ''gridColor'', JStr (ascii ''#2d3748'')),
         (ascii ''domainColor'', JStr (ascii ''#4a5568'')),
         (ascii ''tickColor'', JStr (ascii ''#4a5568''))]),
     (ascii ''legend'', JObj
        [(ascii ''labelColor'', JStr (ascii ''#a0aec0'')),
         (ascii ''titleColor'', JStr (ascii ''#e2e8f0''))]),
     (ascii ''title'', JObj [(ascii ''color'', JStr (ascii ''#e2e8f0''))])]"

definition vegaLiteSchema :: ustring where
  "vegaLiteSchema = ascii ''https://vega.github.io/schema/vega-lite/v5.json''"

text \<open>The colour channel that four of the builders add: nominal, on the palette.\<close>

definition colorChannel :: "ustring \<Rightarrow> json" where
  "colorChannel color = JObj
     [(ascii ''field'', JStr color),
      (ascii ''type'', JStr (ascii ''nominal'')),
      (ascii ''scale'', JObj [(ascii ''range'', JArr (map JStr AURORA_COLORS))])]"

text \<open>\<open>{ ...existing, stack: 'normalize' }\<close>, where \<open>existing\<close> may be \<open>undefined\<close>.\<close>

fun withStack :: "json option \<Rightarrow> json" where
  "withStack (Some (JObj props)) = JObj (obj_set (ascii ''stack'') (JStr (ascii ''normalize'')) props)"
| "withStack _ = JObj [(ascii ''stack'', JStr (ascii ''normalize''))]"

definition buildBarSpec ::
  "row list \<Rightarrow> ustring \<Rightarrow> ustring \<Rightarrow> ustring option \<Rightarrow> bool \<Rightarrow> bool \<Rightarrow> VegaLiteSpec" where
  "buildBarSpec data x y color horizontal stacked =
     (let enc0 =
            [(if horizontal then ascii ''y'' else ascii ''x'', JObj
                [(ascii ''field'', JStr x),
                 (ascii ''type'', JStr (ascii ''nominal'')),
                 (ascii ''axis'', JObj [(ascii ''labelAngle'', JNum (if horizontal then 0 else - 45))]),
                 (ascii ''sort'', JStr (ascii ''-y''))]),
             (if horizontal then ascii ''x'' else ascii ''y'', JObj
                [(ascii ''field'', JStr y),
                 (ascii ''type'', JStr (ascii ''quantitative'')),
                 (ascii ''aggregate'', JStr (ascii ''sum''))])];
          enc1 =
            (case color of
               Some c \<Rightarrow>
                 (if c \<noteq> [] then
                    (let enc = obj_set (ascii ''color'') (colorChannel c) enc0
                     in if stacked then
                          (let key = (if horizontal then ascii ''x'' else ascii ''y'')
                           in obj_set key (withStack (map_of enc key)) enc)
                        else enc)
                  else enc0)
             | None \<Rightarrow> enc0)
      in \<lparr>spec_schema = vegaLiteSchema,
          spec_data = data,
          mark = Some (JObj [(ascii ''type'', JStr (ascii ''bar'')), (ascii ''cornerRadiusEnd'', JNum 4)]),
          encoding = Some enc1,
          config = Some baseConfig,
          width = Some (JStr (ascii ''container'')),
          height = Some (JNum 300),
          spec_title = None,
          layer = None\<rparr>)"

text \<open>\<open>if (color) spec.encoding.color = ...\<close>, as the line, area and scatter builders have it.\<close>

fun addColor :: "ustring option \<Rightarrow> (ustring \<times> json) list \<Rightarrow> (ustring \<times> json) list" where
  "addColor None enc = enc"
| "addColor (Some c) enc = (if c \<noteq> [] then obj_set (ascii ''color'') (colorChannel c) enc else enc)"

definition buildLineSpec :: "row list \<Rightarrow> ustring \<Rightarrow> ustring \<Rightarrow> ustring option \<Rightarrow> VegaLiteSpec" where
  "buildLineSpec data x y color =
     \<lparr>spec_schema = vegaLiteSchema,
      spec_data = data,
      mark = Some (JObj [(ascii ''type'', JStr (ascii ''line'')), (ascii ''point'', JBool True),
                         (ascii ''strokeWidth'', JNum 2)]),
      encoding = Some (addColor color
        [(ascii ''x'', JObj
            [(ascii ''field'', JStr x),
             (ascii ''type'', JStr (ascii ''temporal'')),
             (ascii ''axis'', JObj [(ascii ''labelAngle'', JNum (- 45))])]),
         (ascii ''y'', JObj
            [(ascii ''field'', JStr y),
             (ascii ''type'', JStr (ascii ''quantitative'')),
             (ascii ''aggregate'', JStr (ascii ''sum''))])]),
      config = Some baseConfig,
      width = Some (JStr (ascii ''container'')),
      height = Some (JNum 300),
      spec_title = None,
      layer = None\<rparr>"

definition buildAreaSpec ::
  "row list \<Rightarrow> ustring \<Rightarrow> ustring \<Rightarrow> ustring option \<Rightarrow> bool \<Rightarrow> VegaLiteSpec" where
  "buildAreaSpec data x y color stacked =
     \<lparr>spec_schema = vegaLiteSchema,
      spec_data = data,
      mark = Some (JObj [(ascii ''type'', JStr (ascii ''area'')), (ascii ''opacity'', JNum (7 / 10)),
                         (ascii ''line'', JBool True)]),
      encoding = Some (addColor color
        [(ascii ''x'', JObj
            [(ascii ''field'', JStr x),
             (ascii ''type'', JStr (ascii ''temporal'')),
             (ascii ''axis'', JObj [(ascii ''labelAngle'', JNum (- 45))])]),
         (ascii ''y'', JObj
            [(ascii ''field'', JStr y),
             (ascii ''type'', JStr (ascii ''quantitative'')),
             (ascii ''aggregate'', JStr (ascii ''sum'')),
             (ascii ''stack'', if stacked then JStr (ascii ''normalize'') else JUndefined)])]),
      config = Some baseConfig,
      width = Some (JStr (ascii ''container'')),
      height = Some (JNum 300),
      spec_title = None,
      layer = None\<rparr>"

text \<open>\<open>if (size) spec.encoding.size = ...\<close>.\<close>

fun addSize :: "ustring option \<Rightarrow> (ustring \<times> json) list \<Rightarrow> (ustring \<times> json) list" where
  "addSize None enc = enc"
| "addSize (Some s) enc =
     (if s \<noteq> [] then
        obj_set (ascii ''size'')
          (JObj [(ascii ''field'', JStr s), (ascii ''type'', JStr (ascii ''quantitative''))]) enc
      else enc)"

definition buildScatterSpec ::
  "row list \<Rightarrow> ustring \<Rightarrow> ustring \<Rightarrow> ustring option \<Rightarrow> ustring option \<Rightarrow> VegaLiteSpec" where
  "buildScatterSpec data x y color size' =
     \<lparr>spec_schema = vegaLiteSchema,
      spec_data = data,
      mark = Some (JObj [(ascii ''type'', JStr (ascii ''circle'')), (ascii ''opacity'', JNum (7 / 10))]),
      encoding = Some (addSize size' (addColor color
        [(ascii ''x'', JObj
            [(ascii ''field'', JStr x), (ascii ''type'', JStr (ascii ''quantitative''))]),
         (ascii ''y'', JObj
            [(ascii ''field'', JStr y), (ascii ''type'', JStr (ascii ''quantitative''))])])),
      config = Some baseConfig,
      width = Some (JStr (ascii ''container'')),
      height = Some (JNum 300),
      spec_title = None,
      layer = None\<rparr>"

definition buildHistogramSpec :: "row list \<Rightarrow> ustring \<Rightarrow> VegaLiteSpec" where
  "buildHistogramSpec data field =
     \<lparr>spec_schema = vegaLiteSchema,
      spec_data = data,
      mark = Some (JObj [(ascii ''type'', JStr (ascii ''bar'')), (ascii ''cornerRadiusEnd'', JNum 4)]),
      encoding = Some
        [(ascii ''x'', JObj
            [(ascii ''field'', JStr field),
             (ascii ''type'', JStr (ascii ''quantitative'')),
             (ascii ''bin'', JObj [(ascii ''maxbins'', JNum 20)])]),
         (ascii ''y'', JObj
            [(ascii ''aggregate'', JStr (ascii ''count'')),
             (ascii ''type'', JStr (ascii ''quantitative''))]),
         (ascii ''color'', JObj [(ascii ''value'', JStr (ascii ''#00ffff''))])],
      config = Some baseConfig,
      width = Some (JStr (ascii ''container'')),
      height = Some (JNum 300),
      spec_title = None,
      layer = None\<rparr>"

definition buildBoxplotSpec :: "row list \<Rightarrow> ustring \<Rightarrow> ustring \<Rightarrow> VegaLiteSpec" where
  "buildBoxplotSpec data category val =
     \<lparr>spec_schema = vegaLiteSchema,
      spec_data = data,
      mark = Some (JObj [(ascii ''type'', JStr (ascii ''boxplot'')), (ascii ''extent'', JNum (3 / 2))]),
      encoding = Some
        [(ascii ''x'', JObj
            [(ascii ''field'', JStr category), (ascii ''type'', JStr (ascii ''nominal''))]),
         (ascii ''y'', JObj
            [(ascii ''field'', JStr val), (ascii ''type'', JStr (ascii ''quantitative''))]),
         (ascii ''color'', colorChannel category)],
      config = Some baseConfig,
      width = Some (JStr (ascii ''container'')),
      height = Some (JNum 300),
      spec_title = None,
      layer = None\<rparr>"

definition buildHeatmapSpec :: "row list \<Rightarrow> ustring \<Rightarrow> ustring \<Rightarrow> ustring \<Rightarrow> VegaLiteSpec" where
  "buildHeatmapSpec data x y color =
     \<lparr>spec_schema = vegaLiteSchema,
      spec_data = data,
      mark = Some (JStr (ascii ''rect'')),
      encoding = Some
        [(ascii ''x'', JObj [(ascii ''field'', JStr x), (ascii ''type'', JStr (ascii ''nominal''))]),
         (ascii ''y'', JObj [(ascii ''field'', JStr y), (ascii ''type'', JStr (ascii ''nominal''))]),
         (ascii ''color'', JObj
            [(ascii ''field'', JStr color),
             (ascii ''type'', JStr (ascii ''quantitative'')),
             (ascii ''aggregate'', JStr (ascii ''mean'')),
             (ascii ''scale'', JObj [(ascii ''scheme'', JStr (ascii ''viridis''))])])],
      config = Some baseConfig,
      width = Some (JStr (ascii ''container'')),
      height = Some (JNum 300),
      spec_title = None,
      layer = None\<rparr>"

definition buildPieSpec :: "row list \<Rightarrow> ustring \<Rightarrow> ustring \<Rightarrow> bool \<Rightarrow> VegaLiteSpec" where
  "buildPieSpec data category val donut =
     \<lparr>spec_schema = vegaLiteSchema,
      spec_data = data,
      mark = Some (JObj [(ascii ''type'', JStr (ascii ''arc'')),
                         (ascii ''innerRadius'', JNum (if donut then 50 else 0))]),
      encoding = Some
        [(ascii ''theta'', JObj
            [(ascii ''field'', JStr val),
             (ascii ''type'', JStr (ascii ''quantitative'')),
             (ascii ''aggregate'', JStr (ascii ''sum''))]),
         (ascii ''color'', colorChannel category)],
      config = Some baseConfig,
      width = Some (JNum 300),
      height = Some (JNum 300),
      spec_title = None,
      layer = None\<rparr>"

definition buildComboSpec :: "row list \<Rightarrow> ustring \<Rightarrow> ustring \<Rightarrow> ustring \<Rightarrow> VegaLiteSpec" where
  "buildComboSpec data x barY lineY =
     \<lparr>spec_schema = vegaLiteSchema,
      spec_data = data,
      mark = None,
      encoding = None,
      config = Some baseConfig,
      width = Some (JStr (ascii ''container'')),
      height = Some (JNum 300),
      spec_title = None,
      layer = Some
        [JObj
           [(ascii ''mark'', JObj [(ascii ''type'', JStr (ascii ''bar'')),
                                   (ascii ''cornerRadiusEnd'', JNum 4),
                                   (ascii ''color'', JStr (ascii ''#00ffff''))]),
            (ascii ''encoding'', JObj
               [(ascii ''x'', JObj [(ascii ''field'', JStr x), (ascii ''type'', JStr (ascii ''nominal''))]),
                (ascii ''y'', JObj [(ascii ''field'', JStr barY),
                                    (ascii ''type'', JStr (ascii ''quantitative'')),
                                    (ascii ''aggregate'', JStr (ascii ''sum''))])])],
         JObj
           [(ascii ''mark'', JObj [(ascii ''type'', JStr (ascii ''line'')),
                                   (ascii ''point'', JBool True),
                                   (ascii ''color'', JStr (ascii ''#9966ff'')),
                                   (ascii ''strokeWidth'', JNum 2)]),
            (ascii ''encoding'', JObj
               [(ascii ''x'', JObj [(ascii ''field'', JStr x), (ascii ''type'', JStr (ascii ''nominal''))]),
                (ascii ''y'', JObj [(ascii ''field'', JStr lineY),
                                    (ascii ''type'', JStr (ascii ''quantitative'')),
                                    (ascii ''aggregate'', JStr (ascii ''sum''))])])]]\<rparr>"

text \<open>
  The dispatch of \<open>buildSpecFromIntent\<close> on the chart type, entered once the chart type and
  a truthy x field are there. The types without a case of their own (\<open>bar-grouped\<close>,
  \<open>radar\<close>, \<open>timeline\<close>) take the \<open>default\<close> branch.
\<close>

fun specForType :: "ChartType \<Rightarrow> row list \<Rightarrow> ustring \<Rightarrow> ChartIntent \<Rightarrow> VegaLiteSpec" where
  "specForType Bar data x i = buildBarSpec data x (or_string (yField i) x) (colorField i) False False"
| "specForType BarHorizontal data x i =
     buildBarSpec data x (or_string (yField i) x) (colorField i) True False"
| "specForType BarStacked data x i =
     buildBarSpec data x (or_string (yField i) x) (colorField i) False True"
| "specForType Line data x i = buildLineSpec data x (or_string (yField i) x) (colorField i)"
| "specForType Area data x i = buildAreaSpec data x (or_string (yField i) x) (colorField i) False"
| "specForType AreaStacked data x i =
     buildAreaSpec data x (or_string (yField i) x) (colorField i) True"
| "specForType Scatter data x i =
     buildScatterSpec data x (or_string (yField i) x) (colorField i) (sizeField i)"
| "specForType Bubble data x i =
     buildScatterSpec data x (or_string (yField i) x) (colorField i)
       (or_else (sizeField i) (yField i))"
| "specForType Histogram data x i = buildHistogramSpec data x"
| "specForType Boxplot data x i = buildBoxplotSpec data x (or_string (yField i) x)"
| "specForType Heatmap data x i =
     buildHeatmapSpec data x (or_string (yField i) x)
       (or_string (or_else (colorField i) (yField i)) x)"
| "specForType Pie data x i = buildPieSpec data x (or_string (yField i) x) False"
| "specForType Donut data x i = buildPieSpec data x (or_string (yField i) x) True"
| "specForType Combo data x i =
     buildComboSpec data x (or_string (yField i) x)
       (or_string (or_else (colorField i) (yField i)) x)"
| "specForType _ data x i =
     buildBarSpec data x (or_string (yField i) x) (colorField i) False False"

text \<open>\<open>null\<close> is \<open>None\<close>. The schema argument is not read by the source either.\<close>

definition buildSpecFromIntent ::
  "row list \<Rightarrow> DatasetSchema \<Rightarrow> ChartIntent \<Rightarrow> VegaLiteSpec option" where
  "buildSpecFromIntent data schema intent =
     (case chartType intent of
        None \<Rightarrow> None
      | Some ct \<Rightarrow>
          (case xField intent of
             None \<Rightarrow> None
           | Some x \<Rightarrow> if x = [] then None else Some (specForType ct data x intent)))"

section \<open>The chart recommender (\<open>chartRecommender.ts\<close>)\<close>

record Requirements =
  minNumeric :: nat
  minCategorical :: nat
  needsDatetime :: bool

text \<open>The interface \<open>ChartTypeInfo\<close>; its fields \<open>type\<close>, \<open>name\<close>, \<open>description\<close> and
  \<open>category\<close> carry the prefix \<open>info\<close> here.\<close>

record ChartTypeInfo =
  info_type :: ChartType
  info_name :: ustring
  info_description :: ustring
  info_category :: ChartCategory
  requirements :: Requirements

text \<open>The object \<open>suggestedEncodings\<close> of a recommendation: \<open>x\<close>, \<open>y\<close>, \<open>color\<close>, \<open>size\<close>.\<close>

record Encodings =
  enc_x :: "ustring option"
  enc_y :: "ustring option"
  enc_color :: "ustring option"
  enc_size :: "ustring option"

text \<open>The interface \<open>ChartRecommendation\<close>; \<open>type\<close>, \<open>title\<close>, \<open>description\<close> and \<open>category\<close>
  carry the prefix \<open>rec\<close>.\<close>

record ChartRecommendation =
  rec_type :: ChartType
  rec_title :: ustring
  rec_description :: ustring
  rec_category :: ChartCategory
  suitabilityScore :: nat
  suggestedEncodings :: Encodings
  vegaLiteSpec :: VegaLiteSpec

definition CHART_TYPES :: "ChartTypeInfo list" where
  "CHART_TYPES =
    [\<lparr>info_type = Bar, info_name = ascii ''Bar Chart'',
      info_description = ascii ''Compare values across categories'',
      info_category = Comparison,
      requirements = \<lparr>minNumeric = 1, minCategorical = 1, needsDatetime = False\<rparr>\<rparr>,
     \<lparr>info_type = BarHorizontal, info_name = ascii ''Horizontal Bar Chart'',
      info_description = ascii ''Compare values with long category labels'',
      info_category = Comparison,
      requirements = \<lparr>minNumeric = 1, minCategorical = 1, needsDatetime = False\<rparr>\<rparr>,
     \<lparr>info_type = BarStacked, info_name = ascii ''Stacked Bar Chart'',
      info_description = ascii ''Show composition within categories'',
      info_category = Composition,
      requirements = \<lparr>minNumeric = 1, minCategorical = 2, needsDatetime = False\<rparr>\<rparr>,
     \<lparr>info_type = Line, info_name = ascii ''Line Chart'',
      info_description = ascii ''Show trends over time'',
      info_category = Trend,
      requirements = \<lparr>minNumeric = 1, minCategorical = 0, needsDatetime = True\<rparr>\<rparr>,
     \<lparr>info_type = Area, info_name = ascii ''Area Chart'',
      info_description = ascii ''Show cumulative trends over time'',
      info_category = Trend,
      requirements = \<lparr>minNumeric = 1, minCategorical = 0, needsDatetime = True\<rparr>\<rparr>,
     \<lparr>info_type = AreaStacked, info_name = ascii ''Stacked Area Chart'',
      info_description = ascii ''Show composition trends over time'',
      info_category = Trend,
      requirements = \<lparr>minNumeric = 1, minCategorical = 1, needsDatetime = True\<rparr>\<rparr>,
     \<lparr>info_type = Scatter, info_name = ascii ''Scatter Plot'',
      info_description = ascii ''Explore relationships between two variables'',
      info_category = Relationship,
      requirements = \<lparr>minNumeric = 2, minCategorical = 0, needsDatetime = False\<rparr>\<rparr>,
     \<lparr>info_type = Bubble, info_name = ascii ''Bubble Chart'',
      info_description = ascii ''Explore relationships with size dimension'',
      info_category = Relationship,
      requirements = \<lparr>minNumeric = 3, minCategorical = 0, needsDatetime = False\<rparr>\<rparr>,
     \<lparr>info_type = Histogram, info_name = ascii ''Histogram'',
      info_description = ascii ''Show distribution of a numeric variable'',
      info_category = Distribution,
      requirements = \<lparr>minNumeric = 1, minCategorical = 0, needsDatetime = False\<rparr>\<rparr>,
     \<lparr>info_type = Boxplot, info_name = ascii ''Box Plot'',
      info_description = ascii ''Compare distributions across categories'',
      info_category = Distribution,
      requirements = \<lparr>minNumeric = 1, minCategorical = 1, needsDatetime = False\<rparr>\<rparr>,
     \<lparr>info_type = Heatmap, info_name = ascii ''Heatmap'',
      info_description = ascii ''Show intensity across two dimensions'',
      info_category = Relationship,
      requirements = \<lparr>minNumeric = 1, minCategorical = 2, needsDatetime = False\<rparr>\<rparr>,
     \<lparr>info_type = Pie, info_name = ascii ''Pie Chart'',
      info_description = ascii ''Show parts of a whole'',
      info_category = Composition,
      requirements = \<lparr>minNumeric = 1, minCategorical = 1, needsDatetime = False\<rparr>\<rparr>,
     \<lparr>info_type = Donut, info_name = ascii ''Donut Chart'',
      info_description = ascii ''Show parts of a whole with center space'',
      info_category = Composition,
      requirements = \<lparr>minNumeric = 1, minCategorical = 1, needsDatetime = False\<rparr>\<rparr>,
     \<lparr>info_type = Combo, info_name = ascii ''Combo Chart'',
      info_description = ascii ''Combine bar and line for different scales'',
      info_category = Comparison,
      requirements = \<lparr>minNumeric = 2, minCategorical = 1, needsDatetime = False\<rparr>\<rparr>]"

text \<open>The columns by role: numeric, categorical (string-typed with fewer than 50 distinct
  values) and datetime, each in schema order.\<close>

definition getColumnsByType ::
  "DatasetSchema \<Rightarrow> ColumnSchema list \<times> ColumnSchema list \<times> ColumnSchema list" where
  "getColumnsByType schema =
     (filter (\<lambda>c. type c = TNumber) (columns schema),
      filter (\<lambda>c. type c = TString \<and> uniqueCount c < 50) (columns schema),
      filter (\<lambda>c. type c = TDatetime) (columns schema))"

definition calculateSuitability :: "ChartTypeInfo \<Rightarrow> nat \<Rightarrow> nat \<Rightarrow> bool \<Rightarrow> nat" where
  "calculateSuitability chartInfo numericCount categoricalCount hasDatetime =
     (let req = requirements chartInfo
      in if numericCount < minNumeric req then 0
         else if categoricalCount < minCategorical req then 0
         else if needsDatetime req \<and> \<not> hasDatetime then 0
         else
           min 100
             (50
              + (if numericCount = minNumeric req then 10 else 0)
              + (if categoricalCount = minCategorical req then 10 else 0)
              + (if needsDatetime req = hasDatetime then 10 else 0)
              + (if info_type chartInfo = Bar \<and> categoricalCount \<ge> 1 \<and> numericCount \<ge> 1
                 then 15 else 0)
              + (if info_type chartInfo = Line \<and> hasDatetime then 20 else 0)
              + (if info_type chartInfo = Scatter \<and> numericCount \<ge> 2 then 15 else 0)
              + (if info_type chartInfo = Pie \<and> categoricalCount = 1 \<and> numericCount = 1
                 then 10 else 0)))"

definition generateChartTitle :: "ChartTypeInfo \<Rightarrow> Encodings \<Rightarrow> DatasetSchema \<Rightarrow> ustring" where
  "generateChartTitle chartInfo encodings schema =
     (let y = or_string (enc_y encodings) [];
          x = or_string (enc_x encodings) [];
          color = enc_color encodings
      in case info_category chartInfo of
           Trend \<Rightarrow> y @ ascii '' over '' @ x
         | Comparison \<Rightarrow>
             (if truthy color then y @ ascii '' by '' @ x @ ascii '' and '' @ or_string color []
              else y @ ascii '' by '' @ x)
         | Distribution \<Rightarrow> ascii ''Distribution of '' @ (if y \<noteq> [] then y else x)
         | Relationship \<Rightarrow> y @ ascii '' vs '' @ x
         | Composition \<Rightarrow> ascii ''Composition of '' @ y @ ascii '' by '' @ x)"

text \<open>The encodings that the loop of \<open>recommendCharts\<close> suggests for one archetype.\<close>

definition suggestEncodings ::
  "ChartTypeInfo \<Rightarrow> ColumnSchema list \<Rightarrow> ColumnSchema list \<Rightarrow> ColumnSchema list \<Rightarrow> Encodings" where
  "suggestEncodings chartInfo numeric categorical datetime =
     \<lparr>enc_x =
        (if needsDatetime (requirements chartInfo) \<and> datetime \<noteq> [] then Some (name (hd datetime))
         else if categorical \<noteq> [] then Some (name (hd categorical))
         else if numeric \<noteq> [] then Some (name (hd numeric))
         else None),
      enc_y = (if numeric \<noteq> [] then Some (name (hd numeric)) else None),
      enc_color =
        (if length categorical > 1 then Some (name (categorical ! 1))
         else if length categorical = 1 \<and> info_type chartInfo \<noteq> Pie \<and> info_type chartInfo \<noteq> Donut
         then Some (name (categorical ! 0))
         else None),
      enc_size =
        (if length numeric > 2 \<and> (info_type chartInfo = Bubble \<or> info_type chartInfo = Scatter)
         then Some (name (numeric ! 2))
         else None)\<rparr>"

text \<open>The \<open>switch\<close> of \<open>recommendCharts\<close>; \<open>None\<close> is the \<open>null\<close> that \<open>vegaLiteSpec\<close> keeps when
  no case assigns it.\<close>

definition specForRecommendation ::
  "ChartType \<Rightarrow> row list \<Rightarrow> Encodings \<Rightarrow> ColumnSchema list \<Rightarrow> VegaLiteSpec option" where
  "specForRecommendation t data encodings numeric =
     (let x = or_string (enc_x encodings) [];
          y = or_string (enc_y encodings) x;
          color = enc_color encodings;
          size' = enc_size encodings
      in case t of
           Bar \<Rightarrow> Some (buildBarSpec data x y color False False)
         | BarHorizontal \<Rightarrow> Some (buildBarSpec data x y color True False)
         | BarStacked \<Rightarrow> Some (buildBarSpec data x y color False True)
         | Line \<Rightarrow> Some (buildLineSpec data x y color)
         | Area \<Rightarrow> Some (buildAreaSpec data x y color False)
         | AreaStacked \<Rightarrow> Some (buildAreaSpec data x y color True)
         | Scatter \<Rightarrow> Some (buildScatterSpec data x y color size')
         | Bubble \<Rightarrow> Some (buildScatterSpec data x y color size')
         | Histogram \<Rightarrow> Some (buildHistogramSpec data x)
         | Boxplot \<Rightarrow> Some (buildBoxplotSpec data x y)
         | Heatmap \<Rightarrow> Some (buildHeatmapSpec data x (or_string color y) y)
         | Pie \<Rightarrow> Some (buildPieSpec data x y False)
         | Donut \<Rightarrow> Some (buildPieSpec data x y True)
         | Combo \<Rightarrow>
             (if length numeric \<ge> 2 then Some (buildComboSpec data x y (name (numeric ! 1)))
              else None)
         | _ \<Rightarrow> None)"

text \<open>One round of the loop over \<open>CHART_TYPES\<close>: the recommendation pushed for an archetype,
  if any.\<close>

definition recommendationFor ::
  "row list \<Rightarrow> DatasetSchema \<Rightarrow> ChartTypeInfo \<Rightarrow> ChartRecommendation option" where
  "recommendationFor data schema chartInfo =
     (case getColumnsByType schema of (numeric, categorical, datetime) \<Rightarrow>
        (let score = calculateSuitability chartInfo (length numeric) (length categorical)
                       (length datetime > 0)
         in if score > 0 then
              (let encodings = suggestEncodings chartInfo numeric categorical datetime
               in case specForRecommendation (info_type chartInfo) data encodings numeric of
                    Some spec \<Rightarrow>
                      Some \<lparr>rec_type = info_type chartInfo,
                            rec_title = generateChartTitle chartInfo encodings schema,
                            rec_description = info_description chartInfo,
                            rec_category = info_category chartInfo,
                            suitabilityScore = score,
                            suggestedEncodings = encodings,
                            vegaLiteSpec = spec\<rparr>
                  | None \<Rightarrow> None)
            else None))"

text \<open>The recommendations in catalog order, then sorted by
  \<open>(a, b) => b.suitabilityScore - a.suitabilityScore\<close>.\<close>

definition recommendCharts :: "row list \<Rightarrow> DatasetSchema \<Rightarrow> ChartRecommendation list" where
  "recommendCharts data schema =
     Array_sort (\<lambda>a b. suitabilityScore a < suitabilityScore b)
       (List.map_filter (recommendationFor data schema) CHART_TYPES)"

section \<open>Numbers\<close>

text \<open>The arithmetic of the source on \<open>number\<close>: exact on finite values, with the IEEE rules
  for \<open>NaN\<close> and the infinities. A zero divisor counts as positive zero.\<close>

fun isNaN :: "number \<Rightarrow> bool" where
  "isNaN NaN = True"
| "isNaN _ = False"

fun n_neg :: "number \<Rightarrow> number" where
  "n_neg NaN = NaN"
| "n_neg Infinity = NegInfinity"
| "n_neg NegInfinity = Infinity"
| "n_neg (Finite r) = Finite (- r)"

fun n_add :: "number \<Rightarrow> number \<Rightarrow> number" where
  "n_add (Finite a) (Finite b) = Finite (a + b)"
| "n_add NaN _ = NaN"
| "n_add _ NaN = NaN"
| "n_add Infinity NegInfinity = NaN"
| "n_add NegInfinity Infinity = NaN"
| "n_add Infinity _ = Infinity"
| "n_add _ Infinity = Infinity"
| "n_add NegInfinity _ = NegInfinity"
| "n_add _ NegInfinity = NegInfinity"

definition n_sub :: "number \<Rightarrow> number \<Rightarrow> number" where
  "n_sub a b = n_add a (n_neg b)"

text \<open>The sign of a number that is not \<open>NaN\<close>: \<open>-1\<close>, \<open>0\<close> or \<open>1\<close>.\<close>

fun signOf :: "number \<Rightarrow> int" where
  "signOf NaN = 0"
| "signOf Infinity = 1"
| "signOf NegInfinity = - 1"
| "signOf (Finite r) = (if r < 0 then - 1 else if r = 0 then 0 else 1)"

fun n_mul :: "number \<Rightarrow> number \<Rightarrow> number" where
  "n_mul (Finite a) (Finite b) = Finite (a * b)"
| "n_mul NaN _ = NaN"
| "n_mul _ NaN = NaN"
| "n_mul a b =
     (if signOf a * signOf b = 0 then NaN
      else if signOf a * signOf b > 0 then Infinity else NegInfinity)"

fun n_div :: "number \<Rightarrow> number \<Rightarrow> number" where
  "n_div NaN _ = NaN"
| "n_div _ NaN = NaN"
| "n_div (Finite a) (Finite b) =
     (if b \<noteq> 0 then Finite (a / b)
      else if a = 0 then NaN else if a > 0 then Infinity else NegInfinity)"
| "n_div (Finite a) _ = Finite 0"
| "n_div a (Finite b) =
     (if signOf a * (if b < 0 then - 1 else 1) > 0 then Infinity else NegInfinity)"
| "n_div _ _ = NaN"

fun Math_sqrt :: "number \<Rightarrow> number" where
  "Math_sqrt (Finite r) = (if r < 0 then NaN else Finite (sqrt r))"
| "Math_sqrt Infinity = Infinity"
| "Math_sqrt _ = NaN"

fun Math_abs :: "number \<Rightarrow> number" where
  "Math_abs (Finite r) = Finite \<bar>r\<bar>"
| "Math_abs NaN = NaN"
| "Math_abs _ = Infinity"

text \<open>\<open>Math.pow(x, k)\<close> for a natural exponent \<open>k\<close>.\<close>

fun Math_pow :: "number \<Rightarrow> nat \<Rightarrow> number" where
  "Math_pow x 0 = Finite 1"
| "Math_pow x (Suc k) = n_mul x (Math_pow x k)"

text \<open>\<open>a < b\<close>; a comparison with \<open>NaN\<close> is false.\<close>

fun n_less :: "number \<Rightarrow> number \<Rightarrow> bool" where
  "n_less (Finite a) (Finite b) = (a < b)"
| "n_less NaN _ = False"
| "n_less _ NaN = False"
| "n_less NegInfinity NegInfinity = False"
| "n_less NegInfinity _ = True"
| "n_less Infinity _ = False"
| "n_less _ Infinity = True"
| "n_less _ NegInfinity = False"

text \<open>\<open>a >= b\<close>.\<close>

definition n_ge :: "number \<Rightarrow> number \<Rightarrow> bool" where
  "n_ge a b = (if isNaN a then False else if isNaN b then False else \<not> n_less a b)"

fun Number_isInteger :: "number \<Rightarrow> bool" where
  "Number_isInteger (Finite r) = (real_of_int \<lfloor>r\<rfloor> = r)"
| "Number_isInteger _ = False"

definition isDigit :: "nat \<Rightarrow> bool" where
  "isDigit c \<longleftrightarrow> 48 \<le> c \<and> c \<le> 57"

text \<open>The value of a run of decimal digits, and the decimal digits of a natural number.\<close>

definition digitsValue :: "ustring \<Rightarrow> nat" where
  "digitsValue ds = foldl (\<lambda>a c. 10 * a + (c - 48)) 0 ds"

fun digitsOf :: "nat \<Rightarrow> ustring" where
  "digitsOf n = (if n < 10 then [48 + n] else digitsOf (n div 10) @ [48 + n mod 10])"

declare digitsOf.simps [simp del]

text \<open>
  \<open>Number.prototype.toString\<close>. The digits of a finite value that is not an integer below
  \<open>10^21\<close> in magnitude are the shortest ones that read back as the same double, which is a
  property of the double and not of the real: they are given by the parameter \<open>toStr\<close>.
\<close>

fun Number_toString :: "(real \<Rightarrow> ustring) \<Rightarrow> number \<Rightarrow> ustring" where
  "Number_toString toStr NaN = ascii ''NaN''"
| "Number_toString toStr Infinity = ascii ''Infinity''"
| "Number_toString toStr NegInfinity = ascii ''-Infinity''"
| "Number_toString toStr (Finite r) =
     (if real_of_int \<lfloor>r\<rfloor> = r \<and> \<bar>r\<bar> < 10 ^ 21 then
        (if r < 0 then 45 # digitsOf (nat \<lfloor>- r\<rfloor>) else digitsOf (nat \<lfloor>r\<rfloor>))
      else toStr r)"

text \<open>
  \<open>Number.prototype.toFixed(d)\<close>: the integer \<open>n\<close> with \<open>n / 10^d\<close> nearest to the magnitude
  (the larger one of two), its digits padded to at least \<open>d + 1\<close>, the point before the
  last \<open>d\<close> of them.
\<close>

fun Number_toFixed :: "(real \<Rightarrow> ustring) \<Rightarrow> number \<Rightarrow> nat \<Rightarrow> ustring" where
  "Number_toFixed toStr (Finite r) d =
     (if \<bar>r\<bar> \<ge> 10 ^ 21 then Number_toString toStr (Finite r)
      else
        (let m = digitsOf (nat \<lfloor>\<bar>r\<bar> * 10 ^ d + 1 / 2\<rfloor>);
             padded = (if length m \<le> d then replicate (d + 1 - length m) 48 @ m else m);
             body = (if d = 0 then padded
                     else take (length padded - d) padded @ 46 # drop (length padded - d) padded)
         in if r < 0 then 45 # body else body))"
| "Number_toFixed toStr x d = Number_toString toStr x"

text \<open>
  \<open>parseFloat\<close>: leading white space is skipped, then the longest prefix that is a decimal
  literal (sign, \<open>Infinity\<close> or digits with an optional fraction and exponent) gives the value;
  without such a prefix the result is \<open>NaN\<close>.
\<close>

definition exponentPart :: "ustring \<Rightarrow> int" where
  "exponentPart s =
     (case s of
        [] \<Rightarrow> 0
      | e # t \<Rightarrow>
          (if e = 101 \<or> e = 69 then
             (case t of
                [] \<Rightarrow> 0
              | sg # ds \<Rightarrow>
                  (if sg = 43 then
                     (if takeWhile isDigit ds = [] then 0
                      else int (digitsValue (takeWhile isDigit ds)))
                   else if sg = 45 then
                     (if takeWhile isDigit ds = [] then 0
                      else - int (digitsValue (takeWhile isDigit ds)))
                   else if takeWhile isDigit t = [] then 0
                   else int (digitsValue (takeWhile isDigit t))))
           else 0))"

definition scale10 :: "real \<Rightarrow> int \<Rightarrow> real" where
  "scale10 m e = (if e \<ge> 0 then m * 10 ^ nat e else m / 10 ^ nat (- e))"

definition parseUnsigned :: "ustring \<Rightarrow> number" where
  "parseUnsigned s =
     (if prefix (ascii ''Infinity'') s then Infinity
      else
        (let ip = takeWhile isDigit s;
             r1 = dropWhile isDigit s;
             fp = (case r1 of [] \<Rightarrow> [] | c # t \<Rightarrow> if c = 46 then takeWhile isDigit t else []);
             r2 = (case r1 of [] \<Rightarrow> [] | c # t \<Rightarrow> if c = 46 then dropWhile isDigit t else r1)
         in if ip = [] \<and> fp = [] then NaN
            else Finite (scale10 (real (digitsValue ip) + real (digitsValue fp) / 10 ^ length fp)
                           (exponentPart r2))))"

definition parseFloat :: "ustring \<Rightarrow> number" where
  "parseFloat s =
     (case dropWhile isWhiteSpace s of
        [] \<Rightarrow> NaN
      | c # u \<Rightarrow>
          (if c = 43 then parseUnsigned u
           else if c = 45 then n_neg (parseUnsigned u)
           else parseUnsigned (c # u)))"

text \<open>
  What the insight generator leaves to the JavaScript engine: \<open>numberText\<close>, the digits
  of \<open>Number.prototype.toString\<close> where \<open>Number_toString\<close> takes them as a parameter, and
  \<open>functionText\<close>, the text of the built-in function of \<open>Object.prototype\<close> of a given
  name, whose wording the language standard leaves open (it begins with the word
  \<open>function\<close>).
\<close>

record Engine =
  numberText :: "real \<Rightarrow> ustring"
  functionText :: "ustring \<Rightarrow> ustring"

text \<open>\<open>String(v)\<close> on a cell; the prototype object itself reads \<open>[object Object]\<close>.\<close>

fun cellToString :: "Engine \<Rightarrow> cell \<Rightarrow> ustring" where
  "cellToString eng (String s) = s"
| "cellToString eng (Number n) = Number_toString (numberText eng) n"
| "cellToString eng (Boolean b) = (if b then ascii ''true'' else ascii ''false'')"
| "cellToString eng Null = ascii ''null''"
| "cellToString eng Undefined = ascii ''undefined''"
| "cellToString eng (Inherited k) =
     (if k = protoKey then ascii ''[object Object]'' else functionText eng k)"

section \<open>The schema inferencer (\<open>dataAnalyzer.ts\<close>)\<close>

text \<open>The four regular expressions of \<open>datePatterns\<close>, each anchored at the start: a digit
  (\<open>D\<close>) or a given code unit (\<open>U\<close>) at each position.\<close>

datatype pattern_item = D | U nat

fun test_pattern :: "pattern_item list \<Rightarrow> ustring \<Rightarrow> bool" where
  "test_pattern [] s = True"
| "test_pattern (p # ps) [] = False"
| "test_pattern (D # ps) (c # cs) = (isDigit c \<and> test_pattern ps cs)"
| "test_pattern (U u # ps) (c # cs) = (c = u \<and> test_pattern ps cs)"

definition datePatterns :: "pattern_item list list" where
  "datePatterns =
    [[D, D, D, D, U 45, D, D, U 45, D, D],
     [D, D, U 47, D, D, U 47, D, D, D, D],
     [D, D, U 46, D, D, U 46, D, D, D, D],
     [D, D, D, D, U 47, D, D, U 47, D, D]]"

fun isBooleanValue :: "cell \<Rightarrow> bool" where
  "isBooleanValue (Boolean b) = True"
| "isBooleanValue (String s) =
     (s = ascii ''true'' \<or> s = ascii ''false'' \<or> s = ascii ''True'' \<or> s = ascii ''False''
      \<or> s = ascii ''0'' \<or> s = ascii ''1'')"
| "isBooleanValue _ = False"

fun isNumericValue :: "cell \<Rightarrow> bool" where
  "isNumericValue (Number n) = (\<not> isNaN n)"
| "isNumericValue (String s) = (\<not> isNaN (parseFloat (filter (\<lambda>c. c \<noteq> 44) s)))"
| "isNumericValue _ = False"

text \<open>
  What \<open>Date.parse\<close> accepts beyond the ISO format is left to the implementation by the
  language standard, so it is the parameter \<open>dateParse\<close>. A cell is never a \<open>Date\<close> object.
\<close>

fun isDateValue :: "(ustring \<Rightarrow> number) \<Rightarrow> cell \<Rightarrow> bool" where
  "isDateValue dateParse (String s) =
     (list_ex (\<lambda>p. test_pattern p s) datePatterns \<or> \<not> isNaN (dateParse s))"
| "isDateValue dateParse _ = False"

definition inferColumnType :: "(ustring \<Rightarrow> number) \<Rightarrow> cell list \<Rightarrow> ColumnType" where
  "inferColumnType dateParse values =
     (let nonNullValues = filter (\<lambda>v. v \<noteq> Null \<and> v \<noteq> Undefined \<and> v \<noteq> String []) values
      in if length nonNullValues = 0 then TUnknown
         else if length (filter isBooleanValue nonNullValues) = length nonNullValues
                 \<and> length nonNullValues > 0 then TBoolean
         else if length (filter isNumericValue nonNullValues) = length nonNullValues then TNumber
         else if real (length (filter (isDateValue dateParse) nonNullValues))
                   > real (length nonNullValues) * (8 / 10) then TDatetime
         else TString)"

section \<open>The insight generator (\<open>insightGenerator.ts\<close>)\<close>

datatype TrendKind = Increasing | Decreasing | Stable

text \<open>The interface \<open>DataStats\<close>, its fields prefixed by \<open>st\<close>.\<close>

record DataStats =
  st_min :: number
  st_max :: number
  st_mean :: number
  st_median :: number
  st_stdDev :: number
  st_trend :: TrendKind
  st_outliers :: "number list"

text \<open>\<open>xs[i]\<close> on an array of numbers; outside the array it reads \<open>undefined\<close>, which is \<open>NaN\<close>
  in arithmetic. \<open>calculateStats\<close> is called on a non-empty array only.\<close>

definition elemAt :: "number list \<Rightarrow> nat \<Rightarrow> number" where
  "elemAt xs i = (if i < length xs then xs ! i else NaN)"

definition calculateStats :: "number list \<Rightarrow> DataStats" where
  "calculateStats values =
     (let sorted = Array_sort (\<lambda>a b. n_less (Finite 0) (n_sub a b)) values;
          n = length sorted;
          mean = n_div (foldl n_add (Finite 0) values) (Finite (real n));
          median = (if n mod 2 = 0
                    then n_div (n_add (elemAt sorted (n div 2 - 1)) (elemAt sorted (n div 2))) (Finite 2)
                    else elemAt sorted (n div 2));
          variance = n_div (foldl (\<lambda>sum val. n_add sum (Math_pow (n_sub val mean) 2))
                              (Finite 0) values)
                       (Finite (real n));
          stdDev = Math_sqrt variance;
          sumX = foldl (\<lambda>acc i. n_add acc (Finite (real i))) (Finite 0) [0..<n];
          sumY = foldl (\<lambda>acc i. n_add acc (elemAt values i)) (Finite 0) [0..<n];
          sumXY = foldl (\<lambda>acc i. n_add acc (n_mul (Finite (real i)) (elemAt values i))) (Finite 0) [0..<n];
          sumX2 = foldl (\<lambda>acc i. n_add acc (Finite (real i * real i))) (Finite 0) [0..<n];
          slope = n_div (n_sub (n_mul (Finite (real n)) sumXY) (n_mul sumX sumY))
                        (n_sub (n_mul (Finite (real n)) sumX2) (n_mul sumX sumX));
          trend = (if n_less (n_mul (Finite (1 / 10)) mean) slope then Increasing
                   else if n_less slope (n_mul (Finite (- (1 / 10))) mean) then Decreasing
                   else Stable);
          outliers = filter (\<lambda>v. n_less (n_mul (Finite 2) stdDev) (Math_abs (n_sub v mean))) values
      in \<lparr>st_min = elemAt sorted 0,
          st_max = elemAt sorted (n - 1),
          st_mean = mean,
          st_median = median,
          st_stdDev = stdDev,
          st_trend = trend,
          st_outliers = outliers\<rparr>)"

definition formatNumber :: "(real \<Rightarrow> ustring) \<Rightarrow> number \<Rightarrow> ustring" where
  "formatNumber toStr num =
     (if n_ge (Math_abs num) (Finite 1000000)
        then Number_toFixed toStr (n_div num (Finite 1000000)) 1 @ ascii ''M''
      else if n_ge (Math_abs num) (Finite 1000)
        then Number_toFixed toStr (n_div num (Finite 1000)) 1 @ ascii ''K''
      else if Number_isInteger num then Number_toString toStr num
      else Number_toFixed toStr num 2)"

datatype InsightType =
    MaxInsight | MinInsight | TrendInsight | OutlierInsight | ComparisonInsight
  | DistributionInsight

text \<open>The interface \<open>Insight\<close>, its fields prefixed; the source only ever stores a number
  under \<open>value\<close>.\<close>

record Insight =
  insight_type :: InsightType
  insight_title :: ustring
  insight_description :: ustring
  insight_value :: "number option"

text \<open>The column that \<open>generateInsights\<close> analyses, if any.\<close>

definition targetColumn :: "DatasetSchema \<Rightarrow> ustring option \<Rightarrow> ColumnSchema option" where
  "targetColumn schema yF =
     (let numericColumns = filter (\<lambda>c. type c = TNumber) (columns schema)
      in if truthy yF then find (\<lambda>c. Some (name c) = yF) numericColumns
         else (case numericColumns of [] \<Rightarrow> None | c # _ \<Rightarrow> Some c))"

text \<open>
  \<open>typeof val === 'number' ? val : parseFloat(String(val))\<close>. The text of an inherited
  member begins with the word \<open>function\<close> or, for the prototype object, with a bracket, so
  \<open>parseFloat\<close> finds no number in it.
\<close>

fun numericValue :: "Engine \<Rightarrow> cell \<Rightarrow> number" where
  "numericValue eng (Number n) = n"
| "numericValue eng (Inherited k) = NaN"
| "numericValue eng v = parseFloat (cellToString eng v)"

text \<open>The array \<open>values\<close> of \<open>generateInsights\<close>: the numbers of the target column.\<close>

definition columnValues :: "Engine \<Rightarrow> row list \<Rightarrow> ColumnSchema \<Rightarrow> number list" where
  "columnValues eng data target =
     filter (\<lambda>v. \<not> isNaN v) (map (\<lambda>r. numericValue eng (get r (name target))) data)"

text \<open>
  The object \<open>categoryTotals\<close> is a property list in insertion order. \<open>Object.entries\<close> lists
  the keys that are array indices first, in ascending order, and then the other keys as
  inserted.
\<close>

definition isArrayIndex :: "ustring \<Rightarrow> bool" where
  "isArrayIndex k \<longleftrightarrow>
     k \<noteq> [] \<and> list_all isDigit k \<and> (k = [48] \<or> take 1 k \<noteq> [48])
     \<and> digitsValue k < 2 ^ 32 - 1"

definition Object_entries :: "(ustring \<times> 'v) list \<Rightarrow> (ustring \<times> 'v) list" where
  "Object_entries props =
     Array_sort (\<lambda>a b. digitsValue (fst b) < digitsValue (fst a))
       (filter (\<lambda>p. isArrayIndex (fst p)) props)
     @ filter (\<lambda>p. \<not> isArrayIndex (fst p)) props"

text \<open>
  A total of \<open>categoryTotals\<close> is a number, or a text: \<open>categoryTotals\<close> is a plain object, so
  the first lookup of a category that is named like a function of \<open>Object.prototype\<close> reads
  that function, \<open>+\<close> then concatenates its text with the value, and every later \<open>+\<close> on this
  total concatenates again. The wording of such a text is immaterial to what follows: it
  is truthy, and as a number it is \<open>NaN\<close>.
\<close>

datatype categoryTotal = NumberTotal number | TextTotal

text \<open>\<open>t || 0\<close> on a number.\<close>

fun or_zero :: "number \<Rightarrow> number" where
  "or_zero NaN = Finite 0"
| "or_zero v = v"

text \<open>
  The body of the loop that sums the target per category. An assignment to the key
  \<open>__proto__\<close> meets the setter of \<open>Object.prototype\<close>, which ignores a value that is not an
  object: the row leaves \<open>categoryTotals\<close> as it is.
\<close>

definition addToCategory ::
  "Engine \<Rightarrow> ustring \<Rightarrow> ustring \<Rightarrow> (ustring \<times> categoryTotal) list \<Rightarrow> row
     \<Rightarrow> (ustring \<times> categoryTotal) list" where
  "addToCategory eng categoryName targetName categoryTotals r =
     (let category = cellToString eng (get r categoryName);
          v = numericValue eng (get r targetName)
      in if \<not> isNaN v then
           (if category = protoKey then categoryTotals
            else
              obj_set category
                (case map_of categoryTotals category of
                   Some (NumberTotal t) \<Rightarrow> NumberTotal (n_add (or_zero t) v)
                 | Some TextTotal \<Rightarrow> TextTotal
                 | None \<Rightarrow>
                     if category \<in> set functionMembers then TextTotal
                     else NumberTotal (n_add (Finite 0) v))
                categoryTotals)
         else categoryTotals)"

text \<open>What does not come back as a list of insights.\<close>

datatype abnormal = TypeError | ImplementationDefinedOrder

text \<open>
  The first entry after \<open>sort((a, b) => b[1] - a[1])\<close>. A total that is a text or \<open>NaN\<close>
  makes every difference \<open>NaN\<close>, which the sort takes for 0. The comparator is consistent
  when every total is a number other than \<open>NaN\<close>, and also when the totals that are such
  numbers are all equal (it is 0 throughout then); in these cases the sort is the stable
  one. In every other case the language standard leaves the order to the implementation.
\<close>

fun totalNumber :: "categoryTotal \<Rightarrow> number" where
  "totalNumber (NumberTotal v) = v"
| "totalNumber TextTotal = NaN"

fun ordered :: "categoryTotal \<Rightarrow> bool" where
  "ordered (NumberTotal v) = (\<not> isNaN v)"
| "ordered TextTotal = False"

fun allEqual :: "'a list \<Rightarrow> bool" where
  "allEqual [] = True"
| "allEqual (t # ts) = list_all (\<lambda>u. u = t) ts"

definition topCategory :: "(ustring \<times> categoryTotal) list \<Rightarrow> abnormal + (ustring \<times> categoryTotal) option" where
  "topCategory entries =
     (if list_all (\<lambda>e. ordered (snd e)) entries \<or> allEqual (filter ordered (map snd entries))
      then
        Inr (case Array_sort
                    (\<lambda>a b. n_less (Finite 0) (n_sub (totalNumber (snd b)) (totalNumber (snd a))))
                    entries of
               [] \<Rightarrow> None
             | leader # _ \<Rightarrow> Some leader)
      else Inl ImplementationDefinedOrder)"

text \<open>
  The insight on the top category. \<open>formatNumber\<close> calls \<open>toFixed\<close> on its argument once the
  other tests have failed, as they do on a text, and a text has no \<open>toFixed\<close>: a top total
  that is a text ends in a \<open>TypeError\<close>.
\<close>

definition comparisonInsight ::
  "Engine \<Rightarrow> row list \<Rightarrow> DatasetSchema \<Rightarrow> ustring option \<Rightarrow> ColumnSchema
     \<Rightarrow> abnormal + Insight list" where
  "comparisonInsight eng data schema xF target =
     (case find (\<lambda>c. type c = TString \<and> Some (name c) = xF) (columns schema) of
        None \<Rightarrow> Inr []
      | Some categoricalColumn \<Rightarrow>
          (let categoryTotals =
                 foldl (addToCategory eng (name categoricalColumn) (name target)) [] data
           in case topCategory (Object_entries categoryTotals) of
                Inl failure \<Rightarrow> Inl failure
              | Inr None \<Rightarrow> Inr []
              | Inr (Some (category, TextTotal)) \<Rightarrow> Inl TypeError
              | Inr (Some (category, NumberTotal v)) \<Rightarrow>
                  Inr [\<lparr>insight_type = ComparisonInsight,
                        insight_title = ascii ''Top Performer'',
                        insight_description =
                          [34] @ category @ [34] @ ascii '' leads with ''
                          @ formatNumber (numberText eng) v @ ascii '' total '' @ name target,
                        insight_value = Some v\<rparr>]))"

text \<open>
  \<open>generateInsights\<close> returns the list of insights (\<open>Inr\<close>), unless the comparison at its end
  fails (\<open>Inl\<close>): an exception there gives up the insights pushed before it.
\<close>

definition generateInsights ::
  "Engine \<Rightarrow> row list \<Rightarrow> DatasetSchema \<Rightarrow> ustring option \<Rightarrow> ustring option
     \<Rightarrow> abnormal + Insight list" where
  "generateInsights eng data schema xF yF =
     (if length data = 0 then Inr []
      else
        (case targetColumn schema yF of
           None \<Rightarrow> Inr []
         | Some target \<Rightarrow>
             (let values = columnValues eng data target
              in if length values = 0 then Inr []
                 else
                   (let stats = calculateStats values;
                        spreadRatio = n_div (st_stdDev stats) (st_mean stats);
                        toStr = numberText eng
                    in case comparisonInsight eng data schema xF target of
                         Inl failure \<Rightarrow> Inl failure
                       | Inr comparison \<Rightarrow>
                           Inr
                            ([\<lparr>insight_type = MaxInsight,
                               insight_title = ascii ''Highest Value'',
                               insight_description =
                                 ascii ''The maximum '' @ name target @ ascii '' is ''
                                 @ formatNumber toStr (st_max stats),
                               insight_value = Some (st_max stats)\<rparr>,
                              \<lparr>insight_type = MinInsight,
                               insight_title = ascii ''Lowest Value'',
                               insight_description =
                                 ascii ''The minimum '' @ name target @ ascii '' is ''
                                 @ formatNumber toStr (st_min stats),
                               insight_value = Some (st_min stats)\<rparr>]
                             @ (case xF of
                                  None \<Rightarrow> []
                                | Some xs \<Rightarrow>
                                    (if xs \<noteq> [] then
                                       [\<lparr>insight_type = TrendInsight,
                                         insight_title =
                                           (case st_trend stats of
                                              Increasing \<Rightarrow> ascii ''Upward Trend''
                                            | Decreasing \<Rightarrow> ascii ''Downward Trend''
                                            | Stable \<Rightarrow> ascii ''Stable Pattern''),
                                         insight_description =
                                           (case st_trend stats of
                                              Increasing \<Rightarrow>
                                                name target @ ascii '' shows an upward trend over ''
                                                @ xs
                                            | Decreasing \<Rightarrow>
                                                name target @ ascii '' shows a downward trend over ''
                                                @ xs
                                            | Stable \<Rightarrow>
                                                name target
                                                @ ascii '' remains relatively stable over '' @ xs),
                                         insight_value = None\<rparr>]
                                     else []))
                             @ (if length (st_outliers stats) > 0 then
                                  [\<lparr>insight_type = OutlierInsight,
                                    insight_title = ascii ''Outliers Detected'',
                                    insight_description =
                                      ascii ''Found '' @ digitsOf (length (st_outliers stats))
                                      @ ascii '' outlier''
                                      @ (if length (st_outliers stats) > 1 then ascii ''s'' else [])
                                      @ ascii '' that deviate significantly from the average'',
                                    insight_value =
                                      Some (Finite (real (length (st_outliers stats))))\<rparr>]
                                else [])
                             @ [\<lparr>insight_type = DistributionInsight,
                                  insight_title =
                                    (if n_less (Finite (1 / 2)) spreadRatio
                                     then ascii ''High Variability''
                                     else ascii ''Low Variability''),
                                  insight_description =
                                    (if n_less (Finite (1 / 2)) spreadRatio
                                     then name target @ ascii '' values vary widely (range: ''
                                          @ formatNumber toStr (n_sub (st_max stats) (st_min stats))
                                          @ ascii '')''
                                     else name target
                                          @ ascii '' values are fairly consistent around ''
                                          @ formatNumber toStr (st_mean stats)),
                                  insight_value = None\<rparr>]
                             @ comparison)))))"

section \<open>Notions and inputs used by the properties\<close>

text \<open>The \<open>size\<close> channel of a spec, if its encoding has one.\<close>

definition sizeChannel :: "VegaLiteSpec \<Rightarrow> json option" where
  "sizeChannel spec =
     (case encoding spec of None \<Rightarrow> None | Some enc \<Rightarrow> map_of enc (ascii ''size''))"

text \<open>A schema with the columns \<open>Sales\<close> (number) and \<open>Category\<close> (string).\<close>

definition salesCategorySchema :: DatasetSchema where
  "salesCategorySchema =
     \<lparr>columns =
        [\<lparr>name = ascii ''Sales'', type = TNumber, sampleValues = [], uniqueCount = 3,
          nullCount = 0, nullRatio = 0\<rparr>,
         \<lparr>name = ascii ''Category'', type = TString, sampleValues = [], uniqueCount = 3,
          nullCount = 0, nullRatio = 0\<rparr>],
      rowCount = 3, fileName = ascii ''sales.csv'', fileType = Csv\<rparr>"

text \<open>Two intents over the columns \<open>Price\<close> and \<open>Quantity\<close>, neither with a size field.\<close>

definition scatterIntent :: ChartIntent where
  "scatterIntent =
     \<lparr>chartType = Some Scatter, xField = Some (ascii ''Price''),
      yField = Some (ascii ''Quantity''), colorField = None, sizeField = None,
      filterConditions = None, aggregation = None, sortOrder = None, timeGranularity = None\<rparr>"

definition bubbleIntent :: ChartIntent where
  "bubbleIntent =
     \<lparr>chartType = Some Bubble, xField = Some (ascii ''Price''),
      yField = Some (ascii ''Quantity''), colorField = None, sizeField = None,
      filterConditions = None, aggregation = None, sortOrder = None, timeGranularity = None\<rparr>"

text \<open>An optional property that is there.\<close>

fun present :: "'a option \<Rightarrow> bool" where
  "present None = False"
| "present (Some v) = True"

text \<open>
  The shape of a compiled spec document: the version marker, the rows inline, a mark with
  an encoding or else layers, the shared theme, and the two sizing hints.
\<close>

definition completeSpec :: "row list \<Rightarrow> VegaLiteSpec \<Rightarrow> bool" where
  "completeSpec d spec \<longleftrightarrow>
     spec_schema spec = vegaLiteSchema \<and> spec_data spec = d
     \<and> ((present (mark spec) \<and> present (encoding spec)) \<or> present (layer spec))
     \<and> config spec = Some baseConfig \<and> present (width spec) \<and> present (height spec)"

text \<open>An intent with a chart type whose x field is the empty string.\<close>

definition emptyXIntent :: ChartIntent where
  "emptyXIntent =
     \<lparr>chartType = Some Bar, xField = Some [], yField = Some (ascii ''Sales''),
      colorField = None, sizeField = None, filterConditions = None, aggregation = None,
      sortOrder = None, timeGranularity = None\<rparr>"

text \<open>The place of a chart type in the catalog \<open>CHART_TYPES\<close>, counted from 0 (14 for a type
  that is not in the catalog).\<close>

definition catalogPosition :: "ChartType \<Rightarrow> nat" where
  "catalogPosition t = length (takeWhile (\<lambda>chartInfo. info_type chartInfo \<noteq> t) CHART_TYPES)"

text \<open>The order of the recommendation list: a higher score first, and the catalog order
  between equal scores.\<close>

definition ranked :: "ChartRecommendation \<Rightarrow> ChartRecommendation \<Rightarrow> bool" where
  "ranked a b \<longleftrightarrow>
     suitabilityScore b < suitabilityScore a
     \<or> (suitabilityScore a = suitabilityScore b
         \<and> catalogPosition (rec_type a) < catalogPosition (rec_type b))"

text \<open>A schema with a single numeric column.\<close>

definition salesOnlySchema :: DatasetSchema where
  "salesOnlySchema =
     \<lparr>columns =
        [\<lparr>name = ascii ''Sales'', type = TNumber, sampleValues = [], uniqueCount = 3,
          nullCount = 0, nullRatio = 0\<rparr>],
      rowCount = 3, fileName = ascii ''sales.csv'', fileType = Csv\<rparr>"

text \<open>The Turkish keyword for a horizontal bar ("yatay" and the word for bar, with its
  c-cedilla), which has the length of "stacked bar" and stands before it in the table.\<close>

definition yatayCubuk :: ustring where
  "yatayCubuk = ascii ''yatay '' @ 231 # ascii ''ubuk''"

text \<open>A schema with a string column only, and one with the numeric columns \<open>Sales\<close> and
  \<open>Revenue\<close>.\<close>

definition stringOnlySchema :: DatasetSchema where
  "stringOnlySchema =
     \<lparr>columns =
        [\<lparr>name = ascii ''Category'', type = TString, sampleValues = [], uniqueCount = 3,
          nullCount = 0, nullRatio = 0\<rparr>],
      rowCount = 3, fileName = ascii ''sales.csv'', fileType = Csv\<rparr>"

definition salesRevenueSchema :: DatasetSchema where
  "salesRevenueSchema =
     \<lparr>columns =
        [\<lparr>name = ascii ''Sales'', type = TNumber, sampleValues = [], uniqueCount = 3,
          nullCount = 0, nullRatio = 0\<rparr>,
         \<lparr>name = ascii ''Revenue'', type = TNumber, sampleValues = [], uniqueCount = 3,
          nullCount = 0, nullRatio = 0\<rparr>],
      rowCount = 3, fileName = ascii ''sales.csv'', fileType = Csv\<rparr>"

text \<open>A dataset of four rows whose measure \<open>Amount\<close> has the values 10, 20, 30 and 1000
  (the 20 as text, as a CSV file delivers it), with a string column \<open>Region\<close>.\<close>

definition regionColumn :: ColumnSchema where
  "regionColumn =
     \<lparr>name = ascii ''Region'', type = TString, sampleValues = [], uniqueCount = 2,
      nullCount = 0, nullRatio = 0\<rparr>"

definition amountColumn :: ColumnSchema where
  "amountColumn =
     \<lparr>name = ascii ''Amount'', type = TNumber, sampleValues = [], uniqueCount = 4,
      nullCount = 0, nullRatio = 0\<rparr>"

definition amountSchema :: DatasetSchema where
  "amountSchema =
     \<lparr>columns = [regionColumn, amountColumn],
      rowCount = 4, fileName = ascii ''amounts.csv'', fileType = Csv\<rparr>"

definition amountRows :: "row list" where
  "amountRows =
     [[(ascii ''Region'', String (ascii ''North'')), (ascii ''Amount'', Number (Finite 10))],
      [(ascii ''Region'', String (ascii ''South'')), (ascii ''Amount'', String (ascii ''20''))],
      [(ascii ''Region'', String (ascii ''North'')), (ascii ''Amount'', Number (Finite 30))],
      [(ascii ''Region'', String (ascii ''South'')), (ascii ''Amount'', Number (Finite 1000))]]"




text \<open>A single row whose region is named like a member of \<open>Object.prototype\<close>.\<close>

definition constructorRows :: "row list" where
  "constructorRows =
     [[(ascii ''Region'', String (ascii ''constructor'')), (ascii ''Amount'', Number (Finite 10))]]"

text \<open>An engine for the examples: \<open>numberText\<close> is not called on the whole numbers that occur
  there, and the text of a built-in function is worded as the common engines word it.\<close>

definition sampleEngine :: Engine where
  "sampleEngine =
     \<lparr>numberText = (\<lambda>r. []),
      functionText = (\<lambda>k. ascii ''function '' @ k @ ascii ''() { [native code] }'')\<rparr>"

text \<open>Every total of \<open>categoryTotals\<close> is a finite number.\<close>

definition finiteTotals :: "(ustring \<times> categoryTotal) list \<Rightarrow> bool" where
  "finiteTotals ts \<longleftrightarrow> (\<forall>p \<in> set ts. \<exists>x. snd p = NumberTotal (Finite x))"


section \<open>Auxiliary facts\<close>

lemma ascii_eq_iff: "ascii s = ascii t \<longleftrightarrow> s = t"
  unfolding ascii_def by (rule inj_map_eq_map) (simp add: inj_on_def)

lemma set_insert_sorted: "set (insert_sorted after x ys) = insert x (set ys)"
  by (induction ys) auto

lemma set_Array_sort: "set (Array_sort after xs) = set xs"
  by (induction xs) (simp_all add: Array_sort_def set_insert_sorted)

lemma map_of_obj_set: "map_of (obj_set k v ps) = (map_of ps)(k \<mapsto> v)"
  by (induction ps) (auto simp: fun_eq_iff)

lemmas parse_defs = parseFloat_def parseUnsigned_def isWhiteSpace_def isDigit_def ascii_def

section \<open>Schema inference\<close>

lemma inferColumnType_digits:
  "inferColumnType dateParse [String (ascii ''1''), String (ascii ''2''), String (ascii ''3'')]
     = TNumber"
  by (simp add: inferColumnType_def parse_defs)

lemma inferColumnType_tokens:
  "inferColumnType dateParse
     [String (ascii ''true''), String (ascii ''false''), String (ascii ''1'')] = TBoolean"
  by (simp add: inferColumnType_def ascii_def)

lemma inferColumnType_names:
  "inferColumnType dateParse [String (ascii ''Alice''), String (ascii ''Bob'')] =
     (if isNaN (dateParse (ascii ''Alice'')) then TString
      else if isNaN (dateParse (ascii ''Bob'')) then TString else TDatetime)"
  by (simp add: inferColumnType_def parse_defs datePatterns_def)

text \<open>
  C1. The claim expects the column \<open>["2024-01-01", "2024-02-01"]\<close> to be inferred as
  datetime. The numeric test comes before the date test and accepts every string of which
  \<open>parseFloat\<close> can read a prefix; \<open>parseFloat\<close> reads \<open>2024\<close> off an ISO date, so the
  column is inferred as number, whatever \<open>Date.parse\<close> does. (The other three columns of
  the claim come out as it says: see the three lemmas above, the last one for a \<open>Date.parse\<close>
  that rejects a name.)
\<close>

theorem inferColumnType_iso_dates_number:
  "inferColumnType dateParse [String (ascii ''2024-01-01''), String (ascii ''2024-02-01'')]
     = TNumber"
  by (simp add: inferColumnType_def parse_defs)

section \<open>Intent parsing\<close>

lemma normalize_show_sales:
  "normalizeText lower (ascii ''Show sales by category as a bar chart'') =
     ascii ''show sales by category as a bar chart''"
  by (simp add: normalizeText_def ascii_def toLowerCase_def lowerUnit_def isPunctuation_def
      isWhiteSpace_def trim_def)

text \<open>
  C10. The parser does not keep the x field and the colour field apart: for the schema with
  the columns \<open>Sales\<close> (number) and \<open>Category\<close> (the only string column) and the prompt
  "Show sales by category as a bar chart", both the x field and the colour field of the
  intent are \<open>Category\<close>.
\<close>

theorem parsePrompt_color_equals_x:
  "xField (parsePrompt lower (ascii ''Show sales by category as a bar chart'') salesCategorySchema)
     = Some (ascii ''Category'')
   \<and> colorField (parsePrompt lower (ascii ''Show sales by category as a bar chart'') salesCategorySchema)
     = Some (ascii ''Category'')"
  unfolding parsePrompt_def findFieldMatches_def normalize_show_sales
  by (simp add: salesCategorySchema_def matchColumn_def toLowerCase_def lowerUnit_def ascii_def
      Let_def)

section \<open>Spec compilation\<close>

lemma map_of_addColor_size:
  "map_of enc (ascii ''size'') = None \<Longrightarrow> map_of (addColor c enc) (ascii ''size'') = None"
  by (cases c) (simp_all add: map_of_obj_set ascii_eq_iff)

lemma map_of_addSize:
  "map_of (addSize s enc) (ascii ''size'') =
     (case s of
        None \<Rightarrow> map_of enc (ascii ''size'')
      | Some f \<Rightarrow>
          if f = [] then map_of enc (ascii ''size'')
          else Some (JObj [(ascii ''field'', JStr f), (ascii ''type'', JStr (ascii ''quantitative''))]))"
  by (cases s) (simp_all add: map_of_obj_set)

lemma sizeChannel_scatter:
  "sizeChannel (buildScatterSpec d x y c s) =
     (case s of
        None \<Rightarrow> None
      | Some f \<Rightarrow>
          if f = [] then None
          else Some (JObj [(ascii ''field'', JStr f), (ascii ''type'', JStr (ascii ''quantitative''))]))"
  by (simp add: sizeChannel_def buildScatterSpec_def map_of_addSize map_of_addColor_size
      ascii_eq_iff split: option.splits)

text \<open>
  C9, as the claim states it, fails for a bubble chart: without a size field the bubble
  branch passes the y field on as the size, so the spec of \<open>bubbleIntent\<close> has a size channel
  bound to \<open>Quantity\<close>.
\<close>

theorem bubble_size_channel_from_y:
  "chartType bubbleIntent = Some Bubble \<and> sizeField bubbleIntent = None
   \<and> map_option sizeChannel (buildSpecFromIntent [] salesCategorySchema bubbleIntent)
       = Some (Some (JObj [(ascii ''field'', JStr (ascii ''Quantity'')),
                           (ascii ''type'', JStr (ascii ''quantitative''))]))"
  by (simp add: bubbleIntent_def buildSpecFromIntent_def sizeChannel_scatter or_else_def
      ascii_def)

text \<open>
  C9, amended. For an intent without a size field that compiles to a spec: a scatter chart
  has no size channel; a bubble chart has the size channel bound to the y field when the
  intent has a non-empty y field, and no size channel otherwise.
\<close>

theorem size_channel_without_size_field:
  assumes "sizeField intent = None"
    and "buildSpecFromIntent d schema intent = Some spec"
  shows "(chartType intent = Some Scatter \<longrightarrow> sizeChannel spec = None) \<and>
         (chartType intent = Some Bubble \<longrightarrow>
            sizeChannel spec =
              (case yField intent of
                 None \<Rightarrow> None
               | Some y \<Rightarrow>
                   if y = [] then None
                   else Some (JObj [(ascii ''field'', JStr y),
                                    (ascii ''type'', JStr (ascii ''quantitative''))])))"
  using assms
  by (auto simp: buildSpecFromIntent_def sizeChannel_scatter or_else_def
      split: option.splits if_splits)

theorem size_channel_without_size_field_witness:
  "sizeField scatterIntent = None
   \<and> buildSpecFromIntent [] salesCategorySchema scatterIntent
       = Some (specForType Scatter [] (ascii ''Price'') scatterIntent)
   \<and> chartType scatterIntent = Some Scatter
   \<and> sizeChannel (specForType Scatter [] (ascii ''Price'') scatterIntent) = None"
proof -
  have size: "sizeField scatterIntent = None"
    by (simp add: scatterIntent_def)
  have built: "buildSpecFromIntent [] salesCategorySchema scatterIntent
                 = Some (specForType Scatter [] (ascii ''Price'') scatterIntent)"
    by (simp add: buildSpecFromIntent_def scatterIntent_def ascii_def)
  have kind: "chartType scatterIntent = Some Scatter"
    by (simp add: scatterIntent_def)
  from size_channel_without_size_field [OF size built] kind
  have "sizeChannel (specForType Scatter [] (ascii ''Price'') scatterIntent) = None"
    by blast
  with size built kind show ?thesis by blast
qed

lemma completeSpec_specForType: "completeSpec d (specForType t d x intent)"
  by (cases t)
     (simp_all add: completeSpec_def buildBarSpec_def buildLineSpec_def buildAreaSpec_def
        buildScatterSpec_def buildHistogramSpec_def buildBoxplotSpec_def buildHeatmapSpec_def
        buildPieSpec_def buildComboSpec_def Let_def)

text \<open>
  C5, as the claim states it, fails when the x field is there but empty: the guard of
  \<open>buildSpecFromIntent\<close> tests \<open>!xField\<close>, which is also true of the empty string, so the
  intent \<open>emptyXIntent\<close>, with a chart type and an x field, compiles to no spec.
\<close>

theorem no_spec_for_empty_x_field:
  "chartType emptyXIntent = Some Bar \<and> xField emptyXIntent = Some []
   \<and> buildSpecFromIntent [] salesCategorySchema emptyXIntent = None"
  by (simp add: emptyXIntent_def buildSpecFromIntent_def)

text \<open>
  C5, amended. \<open>buildSpecFromIntent\<close> is a total function without an error result. It returns
  no spec exactly when the chart type of the intent is absent or its x field is absent or
  the empty string; in every other case the spec it returns is a complete document.
\<close>

theorem buildSpecFromIntent_result:
  "(buildSpecFromIntent d schema intent = None
      \<longleftrightarrow> chartType intent = None \<or> xField intent = None \<or> xField intent = Some [])
   \<and> (\<forall>spec. buildSpecFromIntent d schema intent = Some spec \<longrightarrow> completeSpec d spec)"
  by (auto simp: buildSpecFromIntent_def completeSpec_specForType split: option.splits)

theorem buildSpecFromIntent_result_witness:
  "buildSpecFromIntent [] salesCategorySchema scatterIntent
     = Some (specForType Scatter [] (ascii ''Price'') scatterIntent)
   \<and> completeSpec [] (specForType Scatter [] (ascii ''Price'') scatterIntent)"
proof -
  have built: "buildSpecFromIntent [] salesCategorySchema scatterIntent
                 = Some (specForType Scatter [] (ascii ''Price'') scatterIntent)"
    by (simp add: buildSpecFromIntent_def scatterIntent_def ascii_def)
  with buildSpecFromIntent_result [of "[]" salesCategorySchema scatterIntent]
  show ?thesis by blast
qed

section \<open>Chart recommendation\<close>

lemma catalog_types:
  "map info_type CHART_TYPES =
     [Bar, BarHorizontal, BarStacked, Line, Area, AreaStacked, Scatter, Bubble, Histogram,
      Boxplot, Heatmap, Pie, Donut, Combo]"
  by (simp add: CHART_TYPES_def)

lemma distinct_catalog: "distinct (map info_type CHART_TYPES)"
  unfolding catalog_types by simp

lemma catalogPosition_map:
  "catalogPosition t = length (takeWhile (\<lambda>u. u \<noteq> t) (map info_type CHART_TYPES))"
  by (simp add: catalogPosition_def takeWhile_map comp_def)

lemma catalog_positions:
  "map (\<lambda>chartInfo. catalogPosition (info_type chartInfo)) CHART_TYPES = [0..<14]"
proof -
  have "map catalogPosition (map info_type CHART_TYPES) = [0..<14]"
    unfolding catalog_types by (simp add: catalogPosition_map catalog_types upt_rec)
  then show ?thesis by (simp add: comp_def)
qed

lemma catalog_strictly_ordered:
  "sorted_wrt (\<lambda>a b. catalogPosition (info_type a) < catalogPosition (info_type b)) CHART_TYPES"
proof -
  have "sorted_wrt (<) (map (\<lambda>chartInfo. catalogPosition (info_type chartInfo)) CHART_TYPES)"
    unfolding catalog_positions by simp
  then show ?thesis by (simp add: sorted_wrt_map)
qed

lemma recommendationFor_Some:
  assumes "recommendationFor d schema chartInfo = Some r"
  shows "rec_type r = info_type chartInfo"
    and "suitabilityScore r =
           calculateSuitability chartInfo
             (length (fst (getColumnsByType schema)))
             (length (fst (snd (getColumnsByType schema))))
             (length (snd (snd (getColumnsByType schema))) > 0)"
    and "suitabilityScore r > 0"
  using assms
  by (auto simp: recommendationFor_def Let_def split: prod.splits if_splits option.splits)

lemma sorted_wrt_map_filter:
  assumes "sorted_wrt (\<lambda>a b. f a < (f b :: nat)) xs"
    and "\<And>x r. g x = Some r \<Longrightarrow> h r = f x"
  shows "sorted_wrt (\<lambda>a b. h a < h b) (List.map_filter g xs)"
  using assms(1)
proof (induction xs)
  case Nil
  then show ?case by simp
next
  case (Cons x xs)
  show ?case
  proof (cases "g x")
    case None
    with Cons show ?thesis by simp
  next
    case (Some r)
    have "h r < h r'" if "r' \<in> set (List.map_filter g xs)" for r'
    proof -
      from that obtain y where "y \<in> set xs" "g y = Some r'"
        by (auto simp: List.map_filter_def)
      with Cons.prems Some assms(2) show ?thesis by auto
    qed
    with Cons Some show ?thesis by simp
  qed
qed

lemma candidates_in_catalog_order:
  "sorted_wrt (\<lambda>a b. catalogPosition (rec_type a) < catalogPosition (rec_type b))
     (List.map_filter (recommendationFor d schema) CHART_TYPES)"
  by (rule sorted_wrt_map_filter [OF catalog_strictly_ordered])
     (simp add: recommendationFor_Some(1))

lemma insert_keeps_ranked:
  assumes "sorted_wrt ranked ys"
    and "\<forall>y \<in> set ys. catalogPosition (rec_type x) < catalogPosition (rec_type y)"
  shows "sorted_wrt ranked (insert_sorted (\<lambda>a b. suitabilityScore a < suitabilityScore b) x ys)"
  using assms
proof (induction ys)
  case Nil
  then show ?case by simp
next
  case (Cons y ys)
  show ?case
  proof (cases "suitabilityScore x < suitabilityScore y")
    case True
    with Cons show ?thesis
      by (auto simp: set_insert_sorted ranked_def)
  next
    case False
    have "ranked x z" if "z \<in> set (y # ys)" for z
    proof -
      have "suitabilityScore z \<le> suitabilityScore y"
        using that Cons.prems(1) by (auto simp: ranked_def)
      with False that Cons.prems(2) show ?thesis
        by (auto simp: ranked_def)
    qed
    with False Cons.prems(1) show ?thesis by simp
  qed
qed

lemma sort_ranked:
  assumes "sorted_wrt (\<lambda>a b. catalogPosition (rec_type a) < catalogPosition (rec_type b)) xs"
  shows "sorted_wrt ranked (Array_sort (\<lambda>a b. suitabilityScore a < suitabilityScore b) xs)"
  using assms
proof (induction xs)
  case Nil
  then show ?case by (simp add: Array_sort_def)
next
  case (Cons x xs)
  then have "sorted_wrt ranked (Array_sort (\<lambda>a b. suitabilityScore a < suitabilityScore b) xs)"
    by simp
  moreover have "\<forall>y \<in> set (Array_sort (\<lambda>a b. suitabilityScore a < suitabilityScore b) xs).
                   catalogPosition (rec_type x) < catalogPosition (rec_type y)"
    using Cons.prems by (simp add: set_Array_sort)
  ultimately show ?case
    using insert_keeps_ranked [of "Array_sort (\<lambda>a b. suitabilityScore a < suitabilityScore b) xs" x]
    by (simp add: Array_sort_def)
qed

text \<open>
  C4. For every schema and every archetype of the catalog: if the schema has fewer numeric
  columns than the archetype requires, or fewer categorical columns (string-typed, with
  fewer than 50 distinct values), or the archetype needs a temporal column and the schema
  has no datetime column, then the suitability score is 0 and no recommendation of
  \<open>recommendCharts\<close> has the archetype's type.
\<close>

theorem gate_excludes_archetype:
  assumes "chartInfo \<in> set CHART_TYPES"
    and "getColumnsByType schema = (numeric, categorical, datetime)"
    and "length numeric < minNumeric (requirements chartInfo)
         \<or> length categorical < minCategorical (requirements chartInfo)
         \<or> (needsDatetime (requirements chartInfo) \<and> datetime = [])"
  shows "calculateSuitability chartInfo (length numeric) (length categorical)
           (length datetime > 0) = 0
         \<and> info_type chartInfo \<notin> rec_type ` set (recommendCharts d schema)"
proof
  show zero: "calculateSuitability chartInfo (length numeric) (length categorical)
                (length datetime > 0) = 0"
    using assms(3) by (auto simp: calculateSuitability_def Let_def)
  show "info_type chartInfo \<notin> rec_type ` set (recommendCharts d schema)"
  proof
    assume "info_type chartInfo \<in> rec_type ` set (recommendCharts d schema)"
    then obtain r where r: "r \<in> set (List.map_filter (recommendationFor d schema) CHART_TYPES)"
      and t: "rec_type r = info_type chartInfo"
      by (auto simp: recommendCharts_def set_Array_sort)
    from r obtain other where other: "other \<in> set CHART_TYPES"
      and some: "recommendationFor d schema other = Some r"
      by (auto simp: List.map_filter_def)
    from some t have "info_type other = info_type chartInfo"
      by (simp add: recommendationFor_Some(1))
    with other assms(1) distinct_catalog have "other = chartInfo"
      by (meson distinct_map inj_onD)
    with some have "calculateSuitability chartInfo (length numeric) (length categorical)
                      (length datetime > 0) > 0"
      using recommendationFor_Some(2,3) [OF some] assms(2) by simp
    with zero show False by simp
  qed
qed

theorem gate_excludes_archetype_witness:
  "hd CHART_TYPES \<in> set CHART_TYPES
   \<and> getColumnsByType salesOnlySchema = (columns salesOnlySchema, [], [])
   \<and> length ([] :: ColumnSchema list) < minCategorical (requirements (hd CHART_TYPES))
   \<and> calculateSuitability (hd CHART_TYPES) (length (columns salesOnlySchema)) 0 False = 0
   \<and> Bar \<notin> rec_type ` set (recommendCharts [] salesOnlySchema)"
proof -
  have member: "hd CHART_TYPES \<in> set CHART_TYPES"
    by (simp add: CHART_TYPES_def)
  have cols: "getColumnsByType salesOnlySchema = (columns salesOnlySchema, [], [])"
    by (simp add: getColumnsByType_def salesOnlySchema_def)
  have few: "length ([] :: ColumnSchema list) < minCategorical (requirements (hd CHART_TYPES))"
    by (simp add: CHART_TYPES_def)
  have bar: "info_type (hd CHART_TYPES) = Bar"
    by (simp add: CHART_TYPES_def)
  from gate_excludes_archetype [OF member cols, of "[]"] few bar
  show ?thesis using member cols by simp
qed

text \<open>
  C6. The list that \<open>recommendCharts\<close> returns is in descending order of suitability score,
  and of two recommendations with the same score the one whose archetype is declared
  earlier in the catalog comes first.
\<close>

theorem recommendCharts_order:
  "sorted_wrt
     (\<lambda>a b. suitabilityScore b < suitabilityScore a
        \<or> (suitabilityScore a = suitabilityScore b
            \<and> catalogPosition (rec_type a) < catalogPosition (rec_type b)))
     (recommendCharts d schema)"
  using sort_ranked [OF candidates_in_catalog_order, of d schema]
  by (simp add: recommendCharts_def ranked_def [abs_def])

section \<open>Chart-type detection and the defaults of the parser\<close>

text \<open>The order in which \<open>findChartType\<close> tries the keywords.\<close>

lemma sortedKeywords_eq:
  "sortedKeywords =
     [ascii ''horizontal bar'',
      ascii ''y'' @ [305, 287, 305] @ ascii ''lm'' @ [305, 351] @ ascii '' '' @ 231 # ascii ''ubuk'',
      ascii ''y'' @ [305, 287, 305] @ ascii ''lm'' @ [305, 351] @ ascii '' alan'',
      231 # ascii ''ubuk grafik'',
      ascii ''s'' @ 252 # ascii ''tun grafik'',
      231 # ascii ''izgi grafik'',
      ascii ''zaman serisi'',
      ascii ''stacked area'',
      ascii ''scatter plot'',
      ascii ''bubble chart'',
      ascii ''distribution'',
      305 # ascii ''s'' @ 305 # ascii '' haritas'' @ [305],
      ascii ''pasta grafik'',
      ascii ''yatay '' @ 231 # ascii ''ubuk'',
      ascii ''stacked bar'',
      ascii ''time series'',
      ascii ''alan grafik'',
      ascii ''line chart'',
      ascii ''area chart'',
      ascii ''histograms'',
      ascii ''bar chart'',
      ascii ''histogram'',
      ascii ''pie chart'',
      ascii ''box plot'',
      ascii ''heat map'',
      ascii ''combined'',
      ascii ''birle'' @ 351 # ascii ''ik'',
      ascii ''scatter'',
      ascii ''sa'' @ [231, 305] @ ascii ''l'' @ 305 # ascii ''m'',
      ascii ''da'' @ [287, 305] @ ascii ''l'' @ 305 # ascii ''m'',
      ascii ''boxplot'',
      ascii ''heatmap'',
      ascii ''bubble'',
      231 # ascii ''ubuk'',
      ascii ''s'' @ 252 # ascii ''tun'',
      231 # ascii ''izgi'',
      ascii ''trend'',
      ascii ''nokta'',
      ascii ''balon'',
      ascii ''pasta'',
      ascii ''donut'',
      ascii ''halka'',
      ascii ''combo'',
      ascii ''line'',
      ascii ''area'',
      ascii ''alan'',
      ascii ''kutu'',
      ascii ''bar'',
      ascii ''pie'']"
  by (simp add: sortedKeywords_def Array_sort_def CHART_TYPE_KEYWORDS_def ascii_def)

lemma insert_sorted_descending:
  fixes f :: "'a \<Rightarrow> nat"
  assumes "sorted_wrt (\<lambda>a b. f b \<le> f a) ys"
  shows "sorted_wrt (\<lambda>a b. f b \<le> f a) (insert_sorted (\<lambda>a b. f a < f b) x ys)"
  using assms
proof (induction ys)
  case Nil
  then show ?case by simp
next
  case (Cons y ys)
  then show ?case by (fastforce simp: set_insert_sorted)
qed

lemma Array_sort_descending:
  fixes f :: "'a \<Rightarrow> nat"
  shows "sorted_wrt (\<lambda>a b. f b \<le> f a) (Array_sort (\<lambda>a b. f a < f b) xs)"
  by (induction xs) (simp_all add: Array_sort_def insert_sorted_descending)

lemma filter_insert_sorted:
  fixes f :: "'a \<Rightarrow> nat"
  shows "filter (\<lambda>y. f y = n) (insert_sorted (\<lambda>a b. f a < f b) x ys)
           = filter (\<lambda>y. f y = n) (x # ys)"
  by (induction ys) auto

lemma filter_Array_sort:
  fixes f :: "'a \<Rightarrow> nat"
  shows "filter (\<lambda>y. f y = n) (Array_sort (\<lambda>a b. f a < f b) xs) = filter (\<lambda>y. f y = n) xs"
  by (induction xs) (simp_all add: Array_sort_def filter_insert_sorted)

lemma find_filter: "find P (filter Q xs) = find (\<lambda>x. Q x \<and> P x) xs"
  by (induction xs) auto

lemma find_Some_restrict: "find P xs = Some x \<Longrightarrow> Q x \<Longrightarrow> find (\<lambda>x. Q x \<and> P x) xs = Some x"
  by (induction xs) (auto split: if_splits)

lemma find_first_is_longest:
  fixes f :: "'a \<Rightarrow> nat"
  assumes "sorted_wrt (\<lambda>a b. f b \<le> f a) xs" and "find P xs = Some x" and "y \<in> set xs" and "P y"
  shows "f y \<le> f x"
  using assms
  by (induction xs) (auto split: if_splits)

lemma find_skip: "\<forall>x \<in> set xs. \<not> P x \<Longrightarrow> find P (xs @ ys) = find P ys"
  by (induction xs) auto

lemma keyword_has_type:
  assumes "k \<in> set (map fst CHART_TYPE_KEYWORDS)"
  shows "\<exists>t ts. map_of CHART_TYPE_KEYWORDS k = Some (t # ts)"
proof -
  from assms obtain v where v: "map_of CHART_TYPE_KEYWORDS k = Some v"
    by (metis map_of_eq_None_iff not_None_eq set_map)
  then have "(k, v) \<in> set CHART_TYPE_KEYWORDS"
    by (rule map_of_SomeD)
  moreover have "\<forall>(k, v) \<in> set CHART_TYPE_KEYWORDS. v \<noteq> []"
    by (simp add: CHART_TYPE_KEYWORDS_def)
  ultimately have "v \<noteq> []" by blast
  with v show ?thesis by (cases v) auto
qed

lemma chartTypeOf_longest:
  assumes "k \<in> set (map fst CHART_TYPE_KEYWORDS)" and "str_includes normalized k"
  shows "\<exists>k' t ts.
           str_includes normalized k'
           \<and> (\<forall>k \<in> set (map fst CHART_TYPE_KEYWORDS). str_includes normalized k \<longrightarrow> length k \<le> length k')
           \<and> find (\<lambda>k. length k = length k' \<and> str_includes normalized k) (map fst CHART_TYPE_KEYWORDS) = Some k'
           \<and> map_of CHART_TYPE_KEYWORDS k' = Some (t # ts)
           \<and> chartTypeOf normalized = Some t"
proof -
  let ?keys = "map fst CHART_TYPE_KEYWORDS"
  let ?P = "str_includes normalized"
  have set_sorted: "set sortedKeywords = set ?keys"
    by (simp add: sortedKeywords_def set_Array_sort)
  have desc: "sorted_wrt (\<lambda>a b. length b \<le> length a) sortedKeywords"
    unfolding sortedKeywords_def by (rule Array_sort_descending)
  from assms set_sorted obtain k' where found: "find ?P sortedKeywords = Some k'"
    by (cases "find ?P sortedKeywords") (auto simp: find_None_iff)
  then have match: "?P k'" and mem: "k' \<in> set ?keys"
    using set_sorted by (auto simp: find_Some_iff)
  have longest: "\<forall>k \<in> set ?keys. ?P k \<longrightarrow> length k \<le> length k'"
    using find_first_is_longest [OF desc found] set_sorted by blast
  have "find (\<lambda>k. length k = length k' \<and> ?P k) sortedKeywords = Some k'"
    using find_Some_restrict [OF found, of "\<lambda>k. length k = length k'"] by simp
  then have "find ?P (filter (\<lambda>k. length k = length k') sortedKeywords) = Some k'"
    by (simp add: find_filter)
  then have first: "find (\<lambda>k. length k = length k' \<and> ?P k) ?keys = Some k'"
    unfolding sortedKeywords_def by (simp add: filter_Array_sort find_filter)
  from keyword_has_type [OF mem] obtain t ts where t: "map_of CHART_TYPE_KEYWORDS k' = Some (t # ts)"
    by blast
  with found have "chartTypeOf normalized = Some t"
    by (simp add: chartTypeOf_def)
  with match longest first t show ?thesis by blast
qed

lemma first_keywords:
  "\<exists>rest. sortedKeywords = take 14 sortedKeywords @ ascii ''stacked bar'' # rest"
  unfolding sortedKeywords_eq by simp

lemma first_keywords_long:
  "\<forall>k \<in> set (take 14 sortedKeywords). 11 < length k \<or> k = yatayCubuk"
  unfolding sortedKeywords_eq by (simp add: yatayCubuk_def ascii_def)

lemma stacked_bar_type: "map_of CHART_TYPE_KEYWORDS (ascii ''stacked bar'') = Some [BarStacked]"
  by (simp add: CHART_TYPE_KEYWORDS_def ascii_def)

lemma chartTypeOf_stacked_bar:
  assumes "str_includes normalized (ascii ''stacked bar'')"
    and "\<forall>k \<in> set (map fst CHART_TYPE_KEYWORDS).
           str_includes normalized k \<longrightarrow> length k \<le> 11 \<and> k \<noteq> yatayCubuk"
  shows "chartTypeOf normalized = Some BarStacked"
proof -
  have "set (take 14 sortedKeywords) \<subseteq> set (map fst CHART_TYPE_KEYWORDS)"
    using set_take_subset [of 14 sortedKeywords] by (simp add: sortedKeywords_def set_Array_sort)
  with assms(2) first_keywords_long
  have none: "\<forall>k \<in> set (take 14 sortedKeywords). \<not> str_includes normalized k"
    by fastforce
  from first_keywords obtain rest
    where "sortedKeywords = take 14 sortedKeywords @ ascii ''stacked bar'' # rest" ..
  then have "find (str_includes normalized) sortedKeywords
               = find (str_includes normalized) (ascii ''stacked bar'' # rest)"
    using find_skip [OF none] by metis
  with assms(1) show ?thesis
    by (simp add: chartTypeOf_def stacked_bar_type)
qed

lemmas normalize_defs = normalizeText_def ascii_def toLowerCase_def lowerUnit_def
  isPunctuation_def isWhiteSpace_def trim_def

lemma normalize_stacked_bar_distribution:
  "normalizeText lower (ascii ''stacked bar distribution'') = ascii ''stacked bar distribution''"
  by (simp add: normalize_defs)

lemma normalize_stacked_bar_cubuk:
  "normalizeText lower (ascii ''stacked bar '' @ 231 # ascii ''ubuk grafik'')
     = ascii ''stacked bar '' @ 231 # ascii ''ubuk grafik''"
  by (simp add: normalize_defs)

text \<open>
  C8, as the claim states it, fails: a text that contains "stacked bar" is decided by any
  keyword that is tried earlier. "stacked bar distribution" contains the longer keyword
  "distribution" and yields \<open>histogram\<close>; "stacked bar" followed by the Turkish keyword for
  a bar chart (12 code units) yields \<open>bar\<close>.
\<close>

theorem stacked_bar_text_other_type:
  "str_includes (normalizeText id (ascii ''stacked bar distribution'')) (ascii ''stacked bar'')
   \<and> findChartType id (ascii ''stacked bar distribution'') = Some Histogram
   \<and> str_includes (normalizeText id (ascii ''stacked bar '' @ 231 # ascii ''ubuk grafik''))
        (ascii ''stacked bar'')
   \<and> findChartType id (ascii ''stacked bar '' @ 231 # ascii ''ubuk grafik'') = Some Bar"
  unfolding findChartType_def chartTypeOf_def sortedKeywords_eq
    normalize_stacked_bar_distribution normalize_stacked_bar_cubuk
  by (simp add: ascii_def CHART_TYPE_KEYWORDS_def)

text \<open>
  C8, amended. The keywords are tried from the longest to the shortest, those of one length
  in the order of the table. So whenever some keyword occurs in the normalized text, the
  chart type is the first type of a keyword \<open>k'\<close> that occurs in the text, is at least as
  long as every keyword that occurs in it, and is the first of its length in the table to
  occur: a shorter keyword never shadows a longer one. A text that contains "stacked bar"
  yields \<open>bar-stacked\<close> provided that no keyword of more than 11 code units and not
  the keyword \<open>yatayCubuk\<close> occurs in it.
\<close>

theorem findChartType_longest_first:
  "((\<exists>k \<in> set (map fst CHART_TYPE_KEYWORDS). str_includes (normalizeText lower text) k) \<longrightarrow>
      (\<exists>k' t ts.
         str_includes (normalizeText lower text) k'
         \<and> (\<forall>k \<in> set (map fst CHART_TYPE_KEYWORDS).
               str_includes (normalizeText lower text) k \<longrightarrow> length k \<le> length k')
         \<and> find (\<lambda>k. length k = length k' \<and> str_includes (normalizeText lower text) k)
              (map fst CHART_TYPE_KEYWORDS) = Some k'
         \<and> map_of CHART_TYPE_KEYWORDS k' = Some (t # ts)
         \<and> findChartType lower text = Some t))
   \<and> (str_includes (normalizeText lower text) (ascii ''stacked bar'')
        \<and> (\<forall>k \<in> set (map fst CHART_TYPE_KEYWORDS).
              str_includes (normalizeText lower text) k \<longrightarrow> length k \<le> 11 \<and> k \<noteq> yatayCubuk)
      \<longrightarrow> findChartType lower text = Some BarStacked)"
  unfolding findChartType_def
  using chartTypeOf_longest [of _ "normalizeText lower text"]
    chartTypeOf_stacked_bar [of "normalizeText lower text"]
  by blast

lemma normalize_stacked_bar_chart:
  "normalizeText lower (ascii ''A stacked bar chart, please!'') = ascii ''a stacked bar chart please''"
  by (simp add: normalize_defs)

theorem findChartType_longest_first_witness:
  "str_includes (normalizeText id (ascii ''A stacked bar chart, please!'')) (ascii ''stacked bar'')
   \<and> findChartType id (ascii ''A stacked bar chart, please!'') = Some BarStacked"
proof -
  have hyps:
    "str_includes (normalizeText id (ascii ''A stacked bar chart, please!'')) (ascii ''stacked bar'')
     \<and> (\<forall>k \<in> set (map fst CHART_TYPE_KEYWORDS).
            str_includes (normalizeText id (ascii ''A stacked bar chart, please!'')) k
            \<longrightarrow> length k \<le> 11 \<and> k \<noteq> yatayCubuk)"
    unfolding normalize_stacked_bar_chart
    by (simp add: CHART_TYPE_KEYWORDS_def ascii_def yatayCubuk_def)
  with findChartType_longest_first [of id "ascii ''A stacked bar chart, please!''"]
  show ?thesis by blast
qed

lemma normalize_empty: "normalizeText lower [] = []"
  by (simp add: normalize_defs)

lemma normalize_revenue: "normalizeText lower (ascii ''revenue'') = ascii ''revenue''"
  by (simp add: normalize_defs)

text \<open>
  C7, as the claim states it, fails in two ways. A schema that is not empty need not have
  a numeric column: for \<open>stringOnlySchema\<close> the empty prompt leaves the y field unset. And a
  prompt without any keyword may name a numeric column, which then is the y field: for the
  prompt "revenue", which has no chart type of its own, the y field is \<open>Revenue\<close>, the second
  numeric column.
\<close>

theorem parsePrompt_y_not_first_numeric:
  "columns stringOnlySchema \<noteq> []
   \<and> chartType (parsePrompt id [] stringOnlySchema) = Some Bar
   \<and> yField (parsePrompt id [] stringOnlySchema) = None
   \<and> findChartType id (ascii ''revenue'') = None
   \<and> map name (filter (\<lambda>c. type c = TNumber) (columns salesRevenueSchema))
        = [ascii ''Sales'', ascii ''Revenue'']
   \<and> yField (parsePrompt id (ascii ''revenue'') salesRevenueSchema) = Some (ascii ''Revenue'')"
  unfolding parsePrompt_def findFieldMatches_def findChartType_def normalize_empty normalize_revenue
    chartTypeOf_def sortedKeywords_eq
  by (simp add: stringOnlySchema_def salesRevenueSchema_def matchColumn_def toLowerCase_def
      lowerUnit_def ascii_def Let_def CHART_TYPE_KEYWORDS_def TIME_KEYWORDS_def)

lemma matchColumn_keeps_y_unset:
  assumes "\<not> truthy (fm_yField r)"
    and "type c = TNumber \<and> str_includes normalized (toLowerCase lower (name c)) \<longrightarrow> name c = []"
  shows "\<not> truthy (fm_yField (matchColumn lower normalized r c))"
  using assms by (simp add: matchColumn_def)

lemma loop_keeps_y_unset:
  assumes "\<not> truthy (fm_yField r)"
    and "\<forall>c \<in> set cs. type c = TNumber \<and> str_includes normalized (toLowerCase lower (name c))
           \<longrightarrow> name c = []"
  shows "\<not> truthy (fm_yField (foldl (matchColumn lower normalized) r cs))"
  using assms
proof (induction cs arbitrary: r)
  case Nil
  then show ?case by simp
next
  case (Cons c cs)
  from Cons.prems have "\<not> truthy (fm_yField (matchColumn lower normalized r c))"
    by (intro matchColumn_keeps_y_unset) simp_all
  with Cons show ?case by simp
qed

lemma findFieldMatches_default_y:
  assumes "filter (\<lambda>c. type c = TNumber) (columns schema) = first # others"
    and "\<forall>c \<in> set (columns schema).
           type c = TNumber \<and> str_includes (normalizeText lower prompt) (toLowerCase lower (name c))
           \<longrightarrow> name c = []"
  shows "fm_yField (findFieldMatches lower prompt schema) = Some (name first)"
proof -
  have "\<not> truthy (fm_yField (foldl (matchColumn lower (normalizeText lower prompt))
            \<lparr>fm_xField = None, fm_yField = None, fm_colorField = None\<rparr> (columns schema)))"
    using assms(2) by (intro loop_keeps_y_unset) simp_all
  with assms(1) show ?thesis
    by (simp add: findFieldMatches_def Let_def)
qed

lemma chartTypeOf_None:
  assumes "\<forall>k \<in> set (map fst CHART_TYPE_KEYWORDS) \<union> set TIME_KEYWORDS. \<not> str_includes normalized k"
  shows "chartTypeOf normalized = None"
proof -
  have "find (str_includes normalized) sortedKeywords = None"
    using assms by (simp add: find_None_iff sortedKeywords_def set_Array_sort)
  moreover have "\<not> list_ex (str_includes normalized) TIME_KEYWORDS"
    using assms by (simp add: list_ex_iff)
  ultimately show ?thesis by (simp add: chartTypeOf_def)
qed

lemma keywords_nonempty:
  "\<forall>k \<in> set (map fst CHART_TYPE_KEYWORDS) \<union> set TIME_KEYWORDS. k \<noteq> []"
  by (simp add: CHART_TYPE_KEYWORDS_def TIME_KEYWORDS_def ascii_def)

text \<open>
  C7, amended. For every schema with at least one numeric column: the empty prompt (when
  the lower case of a numeric column's name is empty only for the empty name, as it is in
  every engine), and every prompt whose normalized text contains no chart-type keyword, no
  time keyword and no lower-cased name (other than the empty one) of a numeric column, is
  parsed into an intent with the chart type \<open>bar\<close> and the first numeric column as the y
  field. This holds whatever the engine's lower-casing outside Latin-1 is.
\<close>

theorem parsePrompt_default:
  assumes "filter (\<lambda>c. type c = TNumber) (columns schema) = first # others"
    and "(prompt = []
          \<and> (\<forall>c \<in> set (columns schema).
                type c = TNumber \<and> toLowerCase lower (name c) = [] \<longrightarrow> name c = []))
         \<or> ((\<forall>k \<in> set (map fst CHART_TYPE_KEYWORDS) \<union> set TIME_KEYWORDS.
                \<not> str_includes (normalizeText lower prompt) k)
            \<and> (\<forall>c \<in> set (columns schema).
                  type c = TNumber \<and> str_includes (normalizeText lower prompt) (toLowerCase lower (name c))
                  \<longrightarrow> name c = []))"
  shows "chartType (parsePrompt lower prompt schema) = Some Bar
         \<and> yField (parsePrompt lower prompt schema) = Some (name first)"
proof -
  have free: "\<forall>k \<in> set (map fst CHART_TYPE_KEYWORDS) \<union> set TIME_KEYWORDS.
                \<not> str_includes (normalizeText lower prompt) k"
  proof (cases "prompt = []")
    case True
    with keywords_nonempty show ?thesis
      by (simp add: normalize_empty)
  next
    case False
    with assms(2) show ?thesis by blast
  qed
  have unnamed: "\<forall>c \<in> set (columns schema).
                   type c = TNumber \<and> str_includes (normalizeText lower prompt) (toLowerCase lower (name c))
                   \<longrightarrow> name c = []"
  proof (cases "prompt = []")
    case True
    with assms(2) show ?thesis
      by (auto simp: normalize_empty)
  next
    case False
    with assms(2) show ?thesis by blast
  qed
  have "findChartType lower prompt = None"
    unfolding findChartType_def using free by (rule chartTypeOf_None)
  moreover have "fm_yField (findFieldMatches lower prompt schema) = Some (name first)"
    using assms(1) unnamed by (rule findFieldMatches_default_y)
  ultimately show ?thesis
    by (simp add: parsePrompt_def Let_def)
qed

lemma normalize_hello: "normalizeText lower (ascii ''Hello, world!'') = ascii ''hello world''"
  by (simp add: normalize_defs)

theorem parsePrompt_default_witness:
  "filter (\<lambda>c. type c = TNumber) (columns salesRevenueSchema)
     = hd (columns salesRevenueSchema) # tl (columns salesRevenueSchema)
   \<and> chartType (parsePrompt id (ascii ''Hello, world!'') salesRevenueSchema) = Some Bar
   \<and> yField (parsePrompt id (ascii ''Hello, world!'') salesRevenueSchema) = Some (ascii ''Sales'')
   \<and> chartType (parsePrompt id [] salesRevenueSchema) = Some Bar
   \<and> yField (parsePrompt id [] salesRevenueSchema) = Some (ascii ''Sales'')"
proof -
  have numeric: "filter (\<lambda>c. type c = TNumber) (columns salesRevenueSchema)
                   = hd (columns salesRevenueSchema) # tl (columns salesRevenueSchema)"
    by (simp add: salesRevenueSchema_def)
  have free: "(\<forall>k \<in> set (map fst CHART_TYPE_KEYWORDS) \<union> set TIME_KEYWORDS.
                 \<not> str_includes (normalizeText id (ascii ''Hello, world!'')) k)
              \<and> (\<forall>c \<in> set (columns salesRevenueSchema).
                    type c = TNumber
                    \<and> str_includes (normalizeText id (ascii ''Hello, world!'')) (toLowerCase id (name c))
                    \<longrightarrow> name c = [])"
    unfolding normalize_hello
    by (simp add: CHART_TYPE_KEYWORDS_def TIME_KEYWORDS_def ascii_def salesRevenueSchema_def
        toLowerCase_def lowerUnit_def)
  have named: "\<forall>c \<in> set (columns salesRevenueSchema).
                 type c = TNumber \<and> toLowerCase id (name c) = [] \<longrightarrow> name c = []"
    by (simp add: salesRevenueSchema_def toLowerCase_def ascii_def)
  have first: "name (hd (columns salesRevenueSchema)) = ascii ''Sales''"
    by (simp add: salesRevenueSchema_def)
  from parsePrompt_default [OF numeric, where prompt = "ascii ''Hello, world!''" and lower = id]
    parsePrompt_default [OF numeric, where prompt = "[]" and lower = id]
    free named first
  show ?thesis using numeric by simp
qed

section \<open>Insights\<close>

lemma sqrt_180125: "424 < sqrt 180125 \<and> sqrt 180125 < 425"
  by (simp add: real_less_rsqrt real_less_lsqrt)

lemma digitsOf_small: "n < 10 \<Longrightarrow> digitsOf n = [48 + n]"
  by (simp add: digitsOf.simps [of n])

lemma digitsOf_10: "digitsOf 10 = ascii ''10''"
  by (simp add: digitsOf.simps [of 10] digitsOf_small ascii_def)

lemma formatNumber_1000: "formatNumber toStr (Finite 1000) = ascii ''1.0K''"
  by (simp add: formatNumber_def n_ge_def digitsOf_10 ascii_def)

lemma formatNumber_10: "formatNumber toStr (Finite 10) = ascii ''10''"
  by (simp add: formatNumber_def n_ge_def digitsOf_10)

lemma sorted_example:
  "Array_sort (\<lambda>a b. n_less (Finite 0) (n_sub a b)) [Finite 10, Finite 20, Finite 30, Finite 1000]
     = [Finite 10, Finite 20, Finite 30, Finite 1000]"
  by (simp add: Array_sort_def n_sub_def)

lemma upt_4: "[0..<4] = [0, 1, 2, 3]"
  by (simp add: upt_rec)

lemma Math_pow_2: "Math_pow x 2 = n_mul x (n_mul x (Finite 1))"
  by (simp add: numeral_2_eq_2)

lemma stats_example:
  "calculateStats [Finite 10, Finite 20, Finite 30, Finite 1000] =
     \<lparr>st_min = Finite 10, st_max = Finite 1000, st_mean = Finite 265, st_median = Finite 25,
      st_stdDev = Finite (sqrt 180125), st_trend = Increasing, st_outliers = []\<rparr>"
  using sqrt_180125
  unfolding calculateStats_def sorted_example
  by (simp add: Let_def elemAt_def n_sub_def upt_4 Math_pow_2)

lemma comparisonInsight_type:
  "comparisonInsight eng d schema xF target = Inr comparison \<Longrightarrow>
     insight_type ` set comparison \<subseteq> {ComparisonInsight}"
  by (auto simp: comparisonInsight_def Let_def split: option.splits sum.splits categoryTotal.splits)

lemma set_obj_set: "set (obj_set k v ps) \<subseteq> insert (k, v) (set ps)"
  by (induction ps) (auto split: if_splits)

lemma set_Object_entries: "set (Object_entries ps) = set ps"
  by (auto simp: Object_entries_def set_Array_sort)

lemma addToCategory_finite:
  assumes "finiteTotals ts"
    and "cellToString eng (get r cname) \<notin> set functionMembers"
    and "isNaN (numericValue eng (get r tname)) \<or> (\<exists>x. numericValue eng (get r tname) = Finite x)"
  shows "finiteTotals (addToCategory eng cname tname ts r)"
proof (cases "isNaN (numericValue eng (get r tname)) \<or> cellToString eng (get r cname) = protoKey")
  case True
  with assms(1) show ?thesis by (auto simp: addToCategory_def Let_def)
next
  case False
  with assms(3) obtain x where x: "numericValue eng (get r tname) = Finite x" by blast
  let ?c = "cellToString eng (get r cname)"
  have "\<exists>y. (case map_of ts ?c of
                Some (NumberTotal t) \<Rightarrow> NumberTotal (n_add (or_zero t) (Finite x))
              | Some TextTotal \<Rightarrow> TextTotal
              | None \<Rightarrow> if ?c \<in> set functionMembers then TextTotal
                        else NumberTotal (n_add (Finite 0) (Finite x))) = NumberTotal (Finite y)"
  proof (cases "map_of ts ?c")
    case None
    with assms(2) show ?thesis by simp
  next
    case (Some t)
    then have "(?c, t) \<in> set ts" by (rule map_of_SomeD)
    with assms(1) obtain z where "t = NumberTotal (Finite z)"
      by (auto simp: finiteTotals_def)
    with Some show ?thesis by simp
  qed
  then obtain y where y: "(case map_of ts ?c of
                Some (NumberTotal t) \<Rightarrow> NumberTotal (n_add (or_zero t) (Finite x))
              | Some TextTotal \<Rightarrow> TextTotal
              | None \<Rightarrow> if ?c \<in> set functionMembers then TextTotal
                        else NumberTotal (n_add (Finite 0) (Finite x))) = NumberTotal (Finite y)"
    by blast
  from False x have "addToCategory eng cname tname ts r = obj_set ?c (NumberTotal (Finite y)) ts"
    by (simp add: addToCategory_def Let_def y)
  moreover have "finiteTotals (obj_set ?c (NumberTotal (Finite y)) ts)"
    using assms(1) set_obj_set [of ?c "NumberTotal (Finite y)" ts]
    by (auto simp: finiteTotals_def)
  ultimately show ?thesis by simp
qed

lemma loop_finite:
  assumes "finiteTotals ts"
    and "\<forall>r \<in> set d. cellToString eng (get r cname) \<notin> set functionMembers"
    and "\<forall>r \<in> set d. isNaN (numericValue eng (get r tname))
           \<or> (\<exists>x. numericValue eng (get r tname) = Finite x)"
  shows "finiteTotals (foldl (addToCategory eng cname tname) ts d)"
  using assms
proof (induction d arbitrary: ts)
  case Nil
  then show ?case by simp
next
  case (Cons r d)
  from Cons.prems have "finiteTotals (addToCategory eng cname tname ts r)"
    by (intro addToCategory_finite) simp_all
  with Cons show ?case by simp
qed

lemma topCategory_finite:
  assumes "finiteTotals entries"
  shows "topCategory entries = Inr None
         \<or> (\<exists>k x. topCategory entries = Inr (Some (k, NumberTotal (Finite x))))"
proof -
  let ?after = "\<lambda>a b. n_less (Finite 0) (n_sub (totalNumber (snd b)) (totalNumber (snd a)))"
  have all: "list_all (\<lambda>e. ordered (snd e)) entries"
    using assms by (auto simp: finiteTotals_def list_all_iff)
  show ?thesis
  proof (cases "Array_sort ?after entries")
    case Nil
    with all show ?thesis by (simp add: topCategory_def)
  next
    case (Cons leader rest)
    then have "leader \<in> set entries"
      using set_Array_sort [of ?after entries] by auto
    with assms obtain x where "snd leader = NumberTotal (Finite x)"
      by (auto simp: finiteTotals_def)
    then have "leader = (fst leader, NumberTotal (Finite x))"
      by (cases leader) simp
    with all Cons show ?thesis
      by (auto simp: topCategory_def)
  qed
qed

lemma comparisonInsight_returns:
  assumes "\<forall>cat \<in> set (columns schema). type cat = TString \<and> Some (name cat) = xF \<longrightarrow>
             (\<forall>r \<in> set d. cellToString eng (get r (name cat)) \<notin> set functionMembers)"
    and "\<forall>r \<in> set d. isNaN (numericValue eng (get r (name target)))
           \<or> (\<exists>x. numericValue eng (get r (name target)) = Finite x)"
  shows "\<exists>comparison. comparisonInsight eng d schema xF target = Inr comparison"
proof (cases "find (\<lambda>c. type c = TString \<and> Some (name c) = xF) (columns schema)")
  case None
  then show ?thesis by (simp add: comparisonInsight_def)
next
  case (Some cat)
  then have "cat \<in> set (columns schema)" and "type cat = TString \<and> Some (name cat) = xF"
    by (auto simp: find_Some_iff)
  with assms(1) have names: "\<forall>r \<in> set d. cellToString eng (get r (name cat)) \<notin> set functionMembers"
    by blast
  have "finiteTotals (foldl (addToCategory eng (name cat) (name target)) [] d)"
    using names assms(2) by (intro loop_finite) (simp_all add: finiteTotals_def)
  then have "finiteTotals (Object_entries (foldl (addToCategory eng (name cat) (name target)) [] d))"
    by (simp add: finiteTotals_def set_Object_entries)
  from topCategory_finite [OF this] Some show ?thesis
    by (auto simp: comparisonInsight_def Let_def)
qed

lemmas get_defs = get_def protoKey_def functionMembers_def

lemma amount_values:
  "columnValues eng amountRows amountColumn = [Finite 10, Finite 20, Finite 30, Finite 1000]"
  by (simp add: columnValues_def amountRows_def amountColumn_def get_defs parseFloat_def
      parseUnsigned_def isWhiteSpace_def isDigit_def ascii_def digitsValue_def exponentPart_def
      scale10_def)

lemma amount_target: "targetColumn amountSchema None = Some amountColumn"
  by (simp add: targetColumn_def amountSchema_def regionColumn_def amountColumn_def)

lemma amount_rows: "amountRows \<noteq> []"
  by (simp add: amountRows_def)

lemma comparisonInsight_no_hint: "comparisonInsight eng d schema None target = Inr []"
proof -
  have "find (\<lambda>c. False) cs = None" for cs :: "ColumnSchema list"
    by (induction cs) auto
  then show ?thesis
    by (simp add: comparisonInsight_def)
qed

text \<open>
  C2, as the claim states it, fails in its last part: for the measure values 10, 20, 30 and
  1000 no outlier insight is emitted. The mean is 265 and the population standard deviation
  is the square root of 180125, about 424.4; the value 1000 deviates from the mean by 735,
  which is less than twice the standard deviation, and the other values deviate by less.
\<close>

theorem no_outlier_among_10_20_30_1000:
  "map_sum id (map insight_type) (generateInsights sampleEngine amountRows amountSchema None None)
     = Inr [MaxInsight, MinInsight, DistributionInsight]
   \<and> st_outliers (calculateStats [Finite 10, Finite 20, Finite 30, Finite 1000]) = []"
  using amount_rows
  by (simp add: generateInsights_def amount_target amount_values comparisonInsight_no_hint
      stats_example Let_def)

lemma constructor_values: "columnValues eng constructorRows amountColumn = [Finite 10]"
  by (simp add: columnValues_def constructorRows_def amountColumn_def get_defs ascii_def)

text \<open>
  A category that is named like a function of \<open>Object.prototype\<close> makes the comparison at the
  end of \<open>generateInsights\<close> fail: the total of the category is a text, and \<open>formatNumber\<close>
  calls \<open>toFixed\<close> on it.
\<close>

lemma type_error_for_inherited_category:
  "generateInsights sampleEngine constructorRows amountSchema (Some (ascii ''Region'')) None
     = Inl TypeError"
proof -
  have "comparisonInsight sampleEngine constructorRows amountSchema (Some (ascii ''Region''))
          amountColumn = Inl TypeError"
    by (simp add: comparisonInsight_def amountSchema_def regionColumn_def amountColumn_def
        constructorRows_def addToCategory_def get_defs Object_entries_def isArrayIndex_def
        isDigit_def topCategory_def Array_sort_def Let_def ascii_def)
  moreover have "constructorRows \<noteq> []"
    by (simp add: constructorRows_def)
  ultimately show ?thesis
    by (simp add: generateInsights_def amount_target constructor_values Let_def)
qed

text \<open>
  C2, amended. For a dataset whose target measure has the values 10, 20, 30 and 1000,
  \<open>generateInsights\<close> returns a list of insights that begins with a max insight of value 1000,
  whose description renders the number as \<open>1.0K\<close>, and a min insight of value 10, and the list
  has no outlier insight. This holds for every engine, whenever no row has, in a string
  column named by the x hint, a category that is named like a function of
  \<open>Object.prototype\<close>.
\<close>

theorem insights_for_10_20_30_1000:
  assumes "targetColumn schema yF = Some target"
    and "columnValues eng d target = [Finite 10, Finite 20, Finite 30, Finite 1000]"
    and "\<forall>cat \<in> set (columns schema). type cat = TString \<and> Some (name cat) = xF \<longrightarrow>
           (\<forall>r \<in> set d. cellToString eng (get r (name cat)) \<notin> set functionMembers)"
  shows "\<exists>insights.
           generateInsights eng d schema xF yF = Inr insights
           \<and> take 2 insights =
               [\<lparr>insight_type = MaxInsight, insight_title = ascii ''Highest Value'',
                 insight_description = ascii ''The maximum '' @ name target @ ascii '' is 1.0K'',
                 insight_value = Some (Finite 1000)\<rparr>,
                \<lparr>insight_type = MinInsight, insight_title = ascii ''Lowest Value'',
                 insight_description = ascii ''The minimum '' @ name target @ ascii '' is 10'',
                 insight_value = Some (Finite 10)\<rparr>]
           \<and> OutlierInsight \<notin> insight_type ` set insights"
proof -
  from assms(2) have nonempty: "d \<noteq> []"
    by (auto simp: columnValues_def)
  have finite: "\<forall>r \<in> set d. isNaN (numericValue eng (get r (name target)))
                  \<or> (\<exists>x. numericValue eng (get r (name target)) = Finite x)"
  proof
    fix r assume r: "r \<in> set d"
    show "isNaN (numericValue eng (get r (name target)))
            \<or> (\<exists>x. numericValue eng (get r (name target)) = Finite x)"
    proof (cases "isNaN (numericValue eng (get r (name target)))")
      case True
      then show ?thesis by simp
    next
      case False
      with r have "numericValue eng (get r (name target)) \<in> set (columnValues eng d target)"
        by (auto simp: columnValues_def)
      with assms(2) show ?thesis by auto
    qed
  qed
  from comparisonInsight_returns [OF assms(3) finite]
  obtain comparison where cmp: "comparisonInsight eng d schema xF target = Inr comparison"
    by blast
  have "OutlierInsight \<notin> insight_type ` set comparison"
    using comparisonInsight_type [OF cmp] by auto
  with nonempty cmp show ?thesis
    by (auto simp: generateInsights_def assms(1,2) stats_example formatNumber_1000 formatNumber_10
        Let_def ascii_def split: option.splits)
qed


lemma region_names:
  "\<forall>cat \<in> set (columns amountSchema).
     type cat = TString \<and> Some (name cat) = Some (ascii ''Region'') \<longrightarrow>
       (\<forall>r \<in> set amountRows. cellToString sampleEngine (get r (name cat)) \<notin> set functionMembers)"
  by (simp add: amountSchema_def regionColumn_def amountColumn_def amountRows_def get_defs ascii_def)

theorem insights_for_10_20_30_1000_witness:
  "map_sum id (take 2)
     (generateInsights sampleEngine amountRows amountSchema (Some (ascii ''Region''))
        (Some (ascii ''Amount''))) =
     Inr [\<lparr>insight_type = MaxInsight, insight_title = ascii ''Highest Value'',
           insight_description = ascii ''The maximum Amount is 1.0K'',
           insight_value = Some (Finite 1000)\<rparr>,
          \<lparr>insight_type = MinInsight, insight_title = ascii ''Lowest Value'',
           insight_description = ascii ''The minimum Amount is 10'',
           insight_value = Some (Finite 10)\<rparr>]
   \<and> map_sum id (\<lambda>insights. OutlierInsight \<in> insight_type ` set insights)
         (generateInsights sampleEngine amountRows amountSchema (Some (ascii ''Region''))
            (Some (ascii ''Amount''))) = Inr False"
proof -
  have target: "targetColumn amountSchema (Some (ascii ''Amount'')) = Some amountColumn"
    by (simp add: targetColumn_def amountSchema_def regionColumn_def amountColumn_def ascii_def)
  have name: "name amountColumn = ascii ''Amount''"
    by (simp add: amountColumn_def)
  from insights_for_10_20_30_1000 [OF target amount_values region_names]
  obtain insights where
    "generateInsights sampleEngine amountRows amountSchema (Some (ascii ''Region''))
       (Some (ascii ''Amount'')) = Inr insights"
    and "take 2 insights =
       [\<lparr>insight_type = MaxInsight, insight_title = ascii ''Highest Value'',
         insight_description = ascii ''The maximum '' @ name amountColumn @ ascii '' is 1.0K'',
         insight_value = Some (Finite 1000)\<rparr>,
        \<lparr>insight_type = MinInsight, insight_title = ascii ''Lowest Value'',
         insight_description = ascii ''The minimum '' @ name amountColumn @ ascii '' is 10'',
         insight_value = Some (Finite 10)\<rparr>]"
    and "OutlierInsight \<notin> insight_type ` set insights"
    by blast
  then show ?thesis
    unfolding name by (simp add: ascii_def)
qed










end
